theory Spec2Isabelle
  imports Complex_Main "HOL-Library.AList" "HOL-Library.Word"
begin

section \<open>Python values, errors and strings\<close>

text \<open>
  The exceptions that the two modules can raise. \<open>Exception\<close> is the class that
  \<open>InstanceExecution.fit\<close> instantiates for an unknown \<open>keras_function\<close>;
  \<open>FrameworkError\<close> stands for any failure inside the training framework.
\<close>

datatype error =
    AttributeError string
  | UnboundLocalError string
  | TypeError string
  | ValueError string
  | KeyError string
  | IndexError
  | Exception string
  | FrameworkError string

text \<open>
  The data handed to \<open>fit\<close> as \<open>x\<close>, \<open>y\<close> and \<open>validation_data\<close>: \<open>None\<close>, a number,
  a list, a tuple, or a generator object (which has neither a length nor an index).
\<close>

datatype pydata =
    PNone
  | PFloat real
  | PList "pydata list"
  | PTuple "pydata list"
  | PGenerator nat

fun py_len :: "pydata \<Rightarrow> error + nat" where
  "py_len (PList xs) = Inr (length xs)"
| "py_len (PTuple xs) = Inr (length xs)"
| "py_len PNone = Inl (TypeError ''object of type NoneType has no len()'')"
| "py_len (PFloat r) = Inl (TypeError ''object of type float has no len()'')"
| "py_len (PGenerator g) = Inl (TypeError ''object of type generator has no len()'')"

fun py_truthy :: "pydata \<Rightarrow> bool" where
  "py_truthy PNone = False"
| "py_truthy (PFloat r) = (r \<noteq> 0)"
| "py_truthy (PList xs) = (xs \<noteq> [])"
| "py_truthy (PTuple xs) = (xs \<noteq> [])"
| "py_truthy (PGenerator g) = True"

fun py_getitem :: "pydata \<Rightarrow> nat \<Rightarrow> error + pydata" where
  "py_getitem (PList xs) i = (if i < length xs then Inr (xs ! i) else Inl IndexError)"
| "py_getitem (PTuple xs) i = (if i < length xs then Inr (xs ! i) else Inl IndexError)"
| "py_getitem PNone i = Inl (TypeError ''NoneType object is not subscriptable'')"
| "py_getitem (PFloat r) i = Inl (TypeError ''float object is not subscriptable'')"
| "py_getitem (PGenerator g) i = Inl (TypeError ''generator object is not subscriptable'')"

text \<open>Values stored in the metadata and hyper-parameter dictionaries: strings and integers.\<close>

datatype mval = MStr string | MInt int

type_synonym meta = "(string \<times> mval) list"

fun show_nat :: "nat \<Rightarrow> string" where
  "show_nat n =
     (if n < 10 then [''0123456789'' ! n]
      else show_nat (n div 10) @ [''0123456789'' ! (n mod 10)])"

declare show_nat.simps [simp del]

definition show_int :: "int \<Rightarrow> string" where
  "show_int i = (if i < 0 then CHR ''-'' # show_nat (nat (- i)) else show_nat (nat i))"

text \<open>The \<open>%s\<close> conversion.\<close>

fun py_str :: "mval \<Rightarrow> string" where
  "py_str (MStr s) = s"
| "py_str (MInt i) = show_int i"

text \<open>\<open>os.path.join\<close> with two components (POSIX).\<close>

definition path_join :: "string \<Rightarrow> string \<Rightarrow> string" where
  "path_join a b =
     (if b \<noteq> [] \<and> hd b = CHR ''/'' then b
      else if a = [] \<or> last a = CHR ''/'' then a @ b
      else a @ ''/'' @ b)"

text \<open>\<open>needle in haystack\<close> on strings.\<close>

fun starts_with :: "string \<Rightarrow> string \<Rightarrow> bool" where
  "starts_with [] s = True"
| "starts_with (c # cs) [] = False"
| "starts_with (c # cs) (d # ds) = (c = d \<and> starts_with cs ds)"

fun str_contains :: "string \<Rightarrow> string \<Rightarrow> bool" where
  "str_contains needle [] = (needle = [])"
| "str_contains needle (d # ds) = (starts_with needle (d # ds) \<or> str_contains needle ds)"

text \<open>Subscripting a dictionary: a missing key raises \<open>KeyError\<close>.\<close>

definition dict_getitem :: "(string \<times> 'v) list \<Rightarrow> string \<Rightarrow> error + 'v" where
  "dict_getitem d k = (case map_of d k of None \<Rightarrow> Inl (KeyError k) | Some v \<Rightarrow> Inr v)"

text \<open>
  The builtins \<open>min\<close> and \<open>max\<close> on a sequence of numbers; both raise \<open>ValueError\<close> on
  an empty sequence. Metric values are Python floats; they are modelled as real numbers
  (no rounding, no NaN).
\<close>

fun py_min :: "real list \<Rightarrow> error + real" where
  "py_min [] = Inl (ValueError ''min() arg is an empty sequence'')"
| "py_min (x # xs) = Inr (fold min xs x)"

fun py_max :: "real list \<Rightarrow> error + real" where
  "py_max [] = Inl (ValueError ''max() arg is an empty sequence'')"
| "py_max (x # xs) = Inr (fold max xs x)"

section \<open>Data model\<close>

text \<open>
  What \<open>get_instance_info\<close> returns: a dictionary with fixed keys. The \<open>key_metrics\<close>
  entry holds results, not the definition of the key metrics.
\<close>

record instance_info =
  info_key_metrics :: "(string \<times> real) list"
  info_ts :: int
  info_training_size :: int
  info_validation_size :: int
  info_num_executions :: nat
  info_model :: string
  info_batch_size :: int
  info_model_size :: int
  info_hyper_parameters :: meta

text \<open>
  A Keras model as far as the two modules look at it. \<open>trainable_weights\<close> lists the
  weight tensors by object identity (an address); the same address twice is the same
  tensor object. \<open>m_json\<close> is what \<open>to_json()\<close> returns.
\<close>

record keras_model =
  m_optimizer :: string
  m_loss :: string
  m_metrics :: "string list"
  m_loss_weights :: "real list option"
  m_trainable_weights :: "nat list"
  m_json :: string

text \<open>
  Callback objects. A Keras callback has a class (its qualified name, as printed by
  \<open>str(type(callback))\<close>) and may have a \<open>log_dir\<close> attribute. \<open>TunerCallback\<close> is the
  results-recording callback, built from the instance info, the key metrics and the
  execution's metadata.
\<close>

datatype callback =
    KerasCallback string "string option"
  | TunerCallback instance_info "(string \<times> string) list" meta

fun cb_class :: "callback \<Rightarrow> string" where
  "cb_class (KerasCallback c d) = c"
| "cb_class (TunerCallback i k m) = ''kerastuner.engine.tunercallback.TunerCallback''"

definition str_type :: "callback \<Rightarrow> string" where
  "str_type cb = ''<class '' @ [CHR 0x27] @ cb_class cb @ [CHR 0x27] @ ''>''"

text \<open>
  The keyword arguments of \<open>fit\<close>. The keys that the code reads or adds are fields;
  \<open>callbacks\<close> is a list of references to callback objects. Every other key is passed
  through in \<open>kw_other\<close>.
\<close>

record kwargs =
  kw_callbacks :: "nat list option"
  kw_validation_data :: "pydata option"
  kw_initial_epoch :: "int option"
  kw_other :: meta

text \<open>The \<open>history\<close> attribute of a training result: metric name to per-epoch values.\<close>

type_synonym history = "(string \<times> real list) list"

record minmax =
  mm_min :: real
  mm_max :: real

record execution =
  e_ts :: int
  e_idx :: mval
  e_meta_data :: meta
  e_num_epochs :: int
  e_num_gpu :: int
  e_display_model :: "string option"
  e_display_info :: bool
  e_save_models :: bool
  e_model :: keras_model
  e_instance_info :: instance_info
  e_key_metrics :: "(string \<times> string) list"
  e_keras_function :: string
  e_model_name :: "string option"
  e_history :: "history option"
  e_metrics :: "(string \<times> minmax) list option"

text \<open>
  Everything outside the objects themselves: the store of callback objects
  (\<open>cells\<close>, with \<open>next_addr\<close> the first unused address) and the trace of what was
  printed, written, saved and dispatched to the training framework.
\<close>

datatype event =
    Summary keras_model
  | FitCall keras_model pydata pydata "kwargs"
  | FitGeneratorCall keras_model pydata "kwargs"
  | FileWrite string string
  | SaveWeights keras_model string
  | CloudSave string string meta

record world =
  cells :: "nat \<Rightarrow> callback"
  next_addr :: nat
  trace :: "event list"

text \<open>One entry of the report's \<open>executions\<close> list (the key is spelt as in the source).\<close>

record execution_info =
  xi_num_epochs :: int
  xi_history :: history
  xi_loss_fn :: string
  xi_loss_weigths :: "real list option"
  xi_meta_data :: meta

record stats =
  st_min :: real
  st_max :: real
  st_mean :: real
  st_median :: real

text \<open>
  The report of \<open>Instance.record_results\<close>: the instance info extended by the
  per-execution details, the metadata and the aggregated metrics
  (metric name, then direction, then statistics).
\<close>

record report = instance_info +
  rep_executions :: "execution_info list"
  rep_meta_data :: meta
  rep_metrics :: "(string \<times> (string \<times> stats) list) list"

text \<open>
  The collaborators: cloning a model, the shape of a weight tensor (by address), the two
  training entry points, which read the callback store and may fail, and the JSON
  serialiser.
\<close>

record keras_env =
  clone_model :: "keras_model \<Rightarrow> keras_model"
  int_shape :: "nat \<Rightarrow> nat list"
  model_fit :: "(nat \<Rightarrow> callback) \<Rightarrow> keras_model \<Rightarrow> pydata \<Rightarrow> pydata \<Rightarrow> kwargs \<Rightarrow> error + history"
  model_fit_generator :: "(nat \<Rightarrow> callback) \<Rightarrow> keras_model \<Rightarrow> pydata \<Rightarrow> kwargs \<Rightarrow> error + history"
  json_dumps :: "report \<Rightarrow> string"

section \<open>InstanceExecution\<close>

definition emit :: "event \<Rightarrow> world \<Rightarrow> world" where
  "emit ev w = w\<lparr>trace := trace w @ [ev]\<rparr>"

definition alloc :: "callback \<Rightarrow> world \<Rightarrow> nat \<times> world" where
  "alloc cb w = (next_addr w, w\<lparr>cells := (cells w)(next_addr w := cb), next_addr := Suc (next_addr w)\<rparr>)"

text \<open>
  The constructor. \<open>now\<close> is the value of \<open>int(time.time())\<close>. The clone is compiled with
  the original's optimizer, loss, metrics and loss weights. The multi-GPU wrapper is
  bound to a local variable only, so \<open>self.model\<close> stays the clone, and it is the clone's
  summary that is printed in both places. The attributes \<open>model_name\<close>, \<open>history\<close> and
  \<open>metrics\<close> are not assigned here.
\<close>

definition InstanceExecution_init ::
  "keras_env \<Rightarrow> int \<Rightarrow> keras_model \<Rightarrow> mval \<Rightarrow> meta \<Rightarrow> int \<Rightarrow> string option \<Rightarrow> bool \<Rightarrow>
   instance_info \<Rightarrow> (string \<times> string) list \<Rightarrow> string \<Rightarrow> bool \<Rightarrow> world \<Rightarrow> execution \<times> world" where
  "InstanceExecution_init env now model idx meta_data num_gpu display_model display_info
     instance_info key_metrics keras_function save_models w =
     (let own = (clone_model env model)\<lparr>m_optimizer := m_optimizer model, m_loss := m_loss model,
                  m_metrics := m_metrics model, m_loss_weights := m_loss_weights model\<rparr>;
          self = \<lparr>e_ts = now, e_idx = idx,
                  e_meta_data = AList.update ''execution'' (MInt now) meta_data,
                  e_num_epochs = - 1, e_num_gpu = num_gpu, e_display_model = display_model,
                  e_display_info = display_info, e_save_models = save_models, e_model = own,
                  e_instance_info = instance_info, e_key_metrics = key_metrics,
                  e_keras_function = keras_function, e_model_name = None,
                  e_history = None, e_metrics = None\<rparr>;
          w1 = (if (display_model = Some ''base'' \<or> display_model = Some ''both'') \<and> display_info
                then emit (Summary own) w else w);
          w2 = (if num_gpu > 1
                then (if (display_model = Some ''multi-gpu'' \<or> display_model = Some ''both'') \<and> display_info
                      then emit (Summary own) w1 else w1)
                else w1)
      in (self, w2))"

text \<open>
  \<open>copy.deepcopy\<close> of a list of callback references: every distinct object is copied
  once to a fresh address (the memo keeps aliases within the list aliased).
\<close>

fun deepcopy_refs :: "(nat \<times> nat) list \<Rightarrow> nat list \<Rightarrow> world \<Rightarrow> nat list \<times> world" where
  "deepcopy_refs memo [] w = ([], w)"
| "deepcopy_refs memo (a # as) w =
     (case map_of memo a of
        Some a' \<Rightarrow> (let (r, w') = deepcopy_refs memo as w in (a' # r, w'))
      | None \<Rightarrow>
          (let (a', w1) = alloc (cells w a) w;
               (r, w') = deepcopy_refs ((a, a') # memo) as w1
           in (a' # r, w')))"

fun cb_log_dir :: "callback \<Rightarrow> string option" where
  "cb_log_dir (KerasCallback c d) = d"
| "cb_log_dir (TunerCallback i k m) = None"

fun set_log_dir :: "string \<Rightarrow> callback \<Rightarrow> callback" where
  "set_log_dir p (KerasCallback c d) = KerasCallback c (Some p)"
| "set_log_dir p (TunerCallback i k m) = TunerCallback i k m"

text \<open>
  The loop over the copied callbacks (lines 55 to 59). Reading \<open>self.model_name\<close> or
  \<open>callback.log_dir\<close> raises \<open>AttributeError\<close> when the attribute does not exist.
\<close>

fun patch_tensorboard :: "execution \<Rightarrow> nat list \<Rightarrow> world \<Rightarrow> error option \<times> world" where
  "patch_tensorboard self [] w = (None, w)"
| "patch_tensorboard self (a # as) w =
     (if str_contains ''TensorBoard'' (str_type (cells w a)) then
        (case e_model_name self of
           None \<Rightarrow> (Some (AttributeError ''model_name''), w)
         | Some name \<Rightarrow>
             (let tensorboard_idx = name @ ''-'' @ py_str (e_idx self) @ ''-'' @ show_int (e_ts self)
              in case cb_log_dir (cells w a) of
                   None \<Rightarrow> (Some (AttributeError ''log_dir''), w)
                 | Some dir \<Rightarrow>
                     patch_tensorboard self as
                       (w\<lparr>cells := (cells w)(a := set_log_dir (path_join dir tensorboard_idx) (cells w a))\<rparr>)))
      else patch_tensorboard self as w)"

text \<open>
  Lines 51 to 63: the callback list that is passed on. An absent, \<open>None\<close> or empty
  \<open>callbacks\<close> argument gives the list holding the results-recording callback alone.
\<close>

definition prepare_callbacks :: "execution \<Rightarrow> kwargs \<Rightarrow> world \<Rightarrow> (error + nat list) \<times> world" where
  "prepare_callbacks self kw w =
     (let (tcb, w0) = alloc (TunerCallback (e_instance_info self) (e_key_metrics self) (e_meta_data self)) w
      in case kw_callbacks kw of
           None \<Rightarrow> (Inr [tcb], w0)
         | Some refs \<Rightarrow>
             (if refs = [] then (Inr [tcb], w0)
              else (let (copies, w1) = deepcopy_refs [] refs w0;
                        (err, w2) = patch_tensorboard self copies w1
                    in case err of
                         Some er \<Rightarrow> (Inl er, w2)
                       | None \<Rightarrow> (Inr (copies @ [tcb]), w2))))"

text \<open>
  \<open>fit\<close>. For an unknown \<open>keras_function\<close> the source builds an \<open>Exception\<close> object
  without raising it (line 69), so control reaches \<open>return results\<close> with \<open>results\<close>
  unbound.
\<close>

definition InstanceExecution_fit ::
  "keras_env \<Rightarrow> execution \<Rightarrow> pydata \<Rightarrow> pydata \<Rightarrow> kwargs \<Rightarrow> world \<Rightarrow> (error + history) \<times> world" where
  "InstanceExecution_fit env self x y kw w =
     (case prepare_callbacks self kw w of
        (Inl er, w1) \<Rightarrow> (Inl er, w1)
      | (Inr callbacks, w1) \<Rightarrow>
          (let kw' = kw\<lparr>kw_callbacks := Some callbacks\<rparr>
           in if e_keras_function self = ''fit'' then
                (model_fit env (cells w1) (e_model self) x y kw',
                 emit (FitCall (e_model self) x y kw') w1)
              else if e_keras_function self = ''generator'' then
                (model_fit_generator env (cells w1) (e_model self) x kw',
                 emit (FitGeneratorCall (e_model self) x kw') w1)
              else (Inl (UnboundLocalError ''results''), w1)))"

text \<open>The loop of lines 81 to 86, started with \<open>self.metrics = {}\<close>.\<close>

fun record_metrics :: "history \<Rightarrow> (string \<times> minmax) list \<Rightarrow> error option \<times> (string \<times> minmax) list" where
  "record_metrics [] ms = (None, ms)"
| "record_metrics ((metric, data) # rest) ms =
     (case py_min data of
        Inl er \<Rightarrow> (Some er, ms)
      | Inr lo \<Rightarrow>
          (case py_max data of
             Inl er \<Rightarrow> (Some er, ms)
           | Inr hi \<Rightarrow> record_metrics rest (AList.update metric \<lparr>mm_min = lo, mm_max = hi\<rparr> ms)))"

text \<open>A metadata entry used as a path component must be a string.\<close>

fun as_path :: "mval \<Rightarrow> error + string" where
  "as_path (MStr s) = Inr s"
| "as_path (MInt i) = Inl (TypeError ''expected str, bytes or os.PathLike object, not int'')"

text \<open>Lines 89 to 104: saving the configuration and the weights.\<close>

definition save_model :: "execution \<Rightarrow> world \<Rightarrow> error option \<times> world" where
  "save_model self w =
     (let md = e_meta_data self in
      case dict_getitem md ''project'' of
        Inl er \<Rightarrow> (Some er, w)
      | Inr p \<Rightarrow>
     (case dict_getitem md ''architecture'' of
        Inl er \<Rightarrow> (Some er, w)
      | Inr a \<Rightarrow>
     (case dict_getitem md ''instance'' of
        Inl er \<Rightarrow> (Some er, w)
      | Inr i \<Rightarrow>
     (case dict_getitem md ''execution'' of
        Inl er \<Rightarrow> (Some er, w)
      | Inr x \<Rightarrow>
     (let prefix = py_str p @ ''-'' @ py_str a @ ''-'' @ py_str i @ ''-'' @ py_str x;
          config_fname = prefix @ ''-config.json''
      in case dict_getitem md ''local_dir'' of
           Inl er \<Rightarrow> (Some er, w)
         | Inr d \<Rightarrow>
        (case as_path d of
           Inl er \<Rightarrow> (Some er, w)
         | Inr dir \<Rightarrow>
             (let local_path = path_join dir config_fname;
                  w1 = emit (CloudSave local_path ''config'' md)
                         (emit (FileWrite local_path (m_json (e_model self))) w);
                  weights_fname = prefix @ ''-weights.h5'';
                  local_path' = path_join dir weights_fname;
                  w2 = emit (CloudSave local_path' ''weights'' md)
                         (emit (SaveWeights (e_model self) local_path') w1)
              in (None, w2))))))))"

text \<open>
  \<open>record_results\<close>. \<open>now\<close> is the value of \<open>int(time.time())\<close>; \<open>len(self.history)\<close> is
  the length of a dictionary, that is its number of keys. The attributes assigned before
  an exception stay assigned.
\<close>

definition InstanceExecution_record_results ::
  "int \<Rightarrow> execution \<Rightarrow> history \<Rightarrow> world \<Rightarrow> error option \<times> execution \<times> world" where
  "InstanceExecution_record_results now self results w =
     (let self1 = self\<lparr>e_history := Some results, e_num_epochs := int (length results), e_ts := now\<rparr>;
          (err, ms) = record_metrics results [];
          self2 = self1\<lparr>e_metrics := Some ms\<rparr>
      in case err of
           Some er \<Rightarrow> (Some er, self2, w)
         | None \<Rightarrow>
             (if e_save_models self2
              then (let (err', w') = save_model self2 w in (err', self2, w'))
              else (None, self2, w)))"

section \<open>Instance\<close>

record Instance =
  i_ts :: int
  i_training_size :: int
  i_model :: keras_model
  i_hyper_parameters :: meta
  i_meta_data :: meta
  i_save_models :: bool
  i_idx :: mval
  i_num_gpu :: int
  i_batch_size :: int
  i_display_model :: "string option"
  i_executions :: "execution list"
  i_model_size :: "64 word"
  i_validation_size :: int
  i_results :: "report option"
  i_key_metrics :: "(string \<times> string) list"
  i_keras_function :: string

text \<open>
  \<open>K.count_params\<close> is \<open>np.prod\<close> of the tensor's dimensions: a 64-bit signed numpy
  integer (the default integer of numpy on Linux), so the product wraps around. A word
  holds the 64 bits; \<open>sint\<close> reads the signed value. (For a tensor without dimensions
  numpy gives the float \<open>1.0\<close>; it is taken as the integer 1.)
\<close>

definition count_params :: "keras_env \<Rightarrow> nat \<Rightarrow> 64 word" where
  "count_params env p = prod_list (map of_nat (int_shape env p))"

text \<open>
  Line 60. \<open>set(model.trainable_weights)\<close> keeps one entry per tensor object; \<open>np.sum\<close>
  adds the counts as 64-bit integers and wraps around like the products, and the order in
  which the set is iterated does not change such a sum.
\<close>

definition compute_model_size :: "keras_env \<Rightarrow> keras_model \<Rightarrow> 64 word" where
  "compute_model_size env model =
     sum_list (map (count_params env) (remdups (m_trainable_weights model)))"

text \<open>
  The parameter count of a tensor and of a model as mathematical integers, without
  wrap-around: what the model size is specified to be.
\<close>

definition exact_params :: "keras_env \<Rightarrow> nat \<Rightarrow> nat" where
  "exact_params env p = prod_list (int_shape env p)"

definition exact_model_size :: "keras_env \<Rightarrow> keras_model \<Rightarrow> nat" where
  "exact_model_size env model = (\<Sum>p\<in>set (m_trainable_weights model). exact_params env p)"

definition Instance_init ::
  "keras_env \<Rightarrow> int \<Rightarrow> mval \<Rightarrow> keras_model \<Rightarrow> meta \<Rightarrow> meta \<Rightarrow> int \<Rightarrow> int \<Rightarrow> string option \<Rightarrow>
   (string \<times> string) list \<Rightarrow> string \<Rightarrow> bool \<Rightarrow> Instance" where
  "Instance_init env now idx model hyper_parameters meta_data num_gpu batch_size display_model
     key_metrics keras_function save_models =
     \<lparr>i_ts = now, i_training_size = - 1, i_model = model,
      i_hyper_parameters = hyper_parameters,
      i_meta_data = AList.update ''instance'' idx meta_data,
      i_save_models = save_models, i_idx = idx, i_num_gpu = num_gpu,
      i_batch_size = batch_size, i_display_model = display_model, i_executions = [],
      i_model_size = compute_model_size env model, i_validation_size = 0,
      i_results = None, i_key_metrics = key_metrics, i_keras_function = keras_function\<rparr>"

definition get_instance_info :: "Instance \<Rightarrow> instance_info" where
  "get_instance_info self =
     \<lparr>info_key_metrics = [], info_ts = i_ts self,
      info_training_size = i_training_size self,
      info_validation_size = i_validation_size self,
      info_num_executions = length (i_executions self),
      info_model = m_json (i_model self),
      info_batch_size = i_batch_size self,
      info_model_size = sint (i_model_size self),
      info_hyper_parameters = i_hyper_parameters self\<rparr>"

text \<open>Lines 82 to 98. \<open>now\<close> is the time at which the execution is constructed.\<close>

definition new_execution :: "keras_env \<Rightarrow> int \<Rightarrow> Instance \<Rightarrow> world \<Rightarrow> execution \<times> Instance \<times> world" where
  "new_execution env now self w =
     (let num_executions = length (i_executions self);
          display_model = (if num_executions > 0 then None else i_display_model self);
          display_info = (if num_executions > 0 then False else True);
          instance_info = get_instance_info self;
          (execution, w') =
             InstanceExecution_init env now (i_model self) (i_idx self) (i_meta_data self)
               (i_num_gpu self) display_model display_info instance_info (i_key_metrics self)
               (i_keras_function self) (i_save_models self) w
      in (execution, self\<lparr>i_executions := i_executions self @ [execution]\<rparr>, w'))"

text \<open>Lines 68 and 69: the validation size is taken from the second component.\<close>

definition record_validation_size :: "kwargs \<Rightarrow> Instance \<Rightarrow> error + Instance" where
  "record_validation_size kw self =
     (case kw_validation_data kw of
        None \<Rightarrow> Inr self
      | Some v \<Rightarrow>
          (if py_truthy v then
             (case py_getitem v 1 of
                Inl er \<Rightarrow> Inl er
              | Inr v1 \<Rightarrow>
                  (case py_len v1 of
                     Inl er \<Rightarrow> Inl er
                   | Inr n \<Rightarrow> Inr (self\<lparr>i_validation_size := int n\<rparr>)))
           else Inr self))"

text \<open>
  Lines 78 to 80, for the execution that is last in the list: its results are recorded in
  place and the raw training result is returned.
\<close>

definition finish_fit ::
  "int \<Rightarrow> execution \<Rightarrow> Instance \<Rightarrow> (error + history) \<times> world \<Rightarrow> (error + history) \<times> Instance \<times> world" where
  "finish_fit now execution self rw =
     (case rw of
        (Inl er, w) \<Rightarrow> (Inl er, self, w)
      | (Inr results, w) \<Rightarrow>
          (let (err, execution', w') = InstanceExecution_record_results now execution results w;
               self' = self\<lparr>i_executions := butlast (i_executions self) @ [execution']\<rparr>
           in (case err of Some er \<Rightarrow> Inl er | None \<Rightarrow> Inr results, self', w')))"

text \<open>
  \<open>fit\<close>. \<open>t_new\<close> is the clock when a new execution is constructed, \<open>t_rec\<close> the clock
  when the results are recorded. On the resume path \<open>initial_epoch\<close> is given as a keyword
  next to \<open>**kwargs\<close>, so a caller's own \<open>initial_epoch\<close> is a \<open>TypeError\<close>.
\<close>

definition Instance_fit ::
  "keras_env \<Rightarrow> int \<Rightarrow> int \<Rightarrow> Instance \<Rightarrow> pydata \<Rightarrow> pydata \<Rightarrow> bool \<Rightarrow> kwargs \<Rightarrow> world \<Rightarrow>
   (error + history) \<times> Instance \<times> world" where
  "Instance_fit env t_new t_rec self x y resume_execution kw w =
     (case py_len y of
        Inl er \<Rightarrow> (Inl er, self, w)
      | Inr n \<Rightarrow>
          (let self1 = self\<lparr>i_training_size := int n\<rparr> in
           case record_validation_size kw self1 of
             Inl er \<Rightarrow> (Inl er, self1, w)
           | Inr self2 \<Rightarrow>
               (if resume_execution \<and> length (i_executions self2) \<noteq> 0 then
                  (let execution = last (i_executions self2) in
                   case kw_initial_epoch kw of
                     Some dup \<Rightarrow>
                       (Inl (TypeError ''got multiple values for keyword argument initial_epoch''), self2, w)
                   | None \<Rightarrow>
                       finish_fit t_rec execution self2
                         (InstanceExecution_fit env execution x y
                            (kw\<lparr>kw_initial_epoch := Some (e_num_epochs execution)\<rparr>) w))
                else
                  (let (execution, self3, w') = new_execution env t_new self2 w
                   in finish_fit t_rec execution self3
                        (InstanceExecution_fit env execution x y kw w')))))"

text \<open>
  The side mapping \<open>exec_metrics\<close>, a \<open>defaultdict\<close> of \<open>defaultdict(list)\<close>:
  \<open>exec_metrics[metric][direction].append(v)\<close>.
\<close>

type_synonym exec_metrics = "(string \<times> (string \<times> real list) list) list"

definition dd_get :: "(string \<times> 'v list) list \<Rightarrow> string \<Rightarrow> 'v list" where
  "dd_get d k = (case map_of d k of None \<Rightarrow> [] | Some v \<Rightarrow> v)"

definition dd_append :: "string \<Rightarrow> string \<Rightarrow> real \<Rightarrow> exec_metrics \<Rightarrow> exec_metrics" where
  "dd_append metric direction v em =
     (let inner = dd_get em metric
      in AList.update metric (AList.update direction (dd_get inner direction @ [v]) inner) em)"

text \<open>Lines 117 to 119, for the items of one execution's \<open>metrics\<close>.\<close>

fun collect_metrics ::
  "(string \<times> minmax) list \<Rightarrow> (string \<times> minmax) list \<Rightarrow> exec_metrics \<Rightarrow> error + exec_metrics" where
  "collect_metrics ms [] em = Inr em"
| "collect_metrics ms ((metric, data) # rest) em =
     (case dict_getitem ms metric of
        Inl er \<Rightarrow> Inl er
      | Inr r \<Rightarrow>
          collect_metrics ms rest
            (dd_append metric ''max'' (mm_max r) (dd_append metric ''min'' (mm_min r) em)))"

text \<open>Lines 113 to 131. Reading \<open>metrics\<close> or \<open>history\<close> of an execution without results raises.\<close>

fun collect_executions ::
  "execution list \<Rightarrow> exec_metrics \<Rightarrow> execution_info list \<Rightarrow> error + exec_metrics \<times> execution_info list" where
  "collect_executions [] em executions = Inr (em, executions)"
| "collect_executions (execution # rest) em executions =
     (case dict_getitem (e_meta_data execution) ''execution'' of
        Inl er \<Rightarrow> Inl er
      | Inr execution_id \<Rightarrow>
          (case e_metrics execution of
             None \<Rightarrow> Inl (AttributeError ''metrics'')
           | Some ms \<Rightarrow>
               (case collect_metrics ms ms em of
                  Inl er \<Rightarrow> Inl er
                | Inr em' \<Rightarrow>
                    (case e_history execution of
                       None \<Rightarrow> Inl (AttributeError ''history'')
                     | Some h \<Rightarrow>
                         collect_executions rest em'
                           (executions @
                              [\<lparr>xi_num_epochs = e_num_epochs execution, xi_history = h,
                                xi_loss_fn = m_loss (e_model execution),
                                xi_loss_weigths = m_loss_weights (e_model execution),
                                xi_meta_data = e_meta_data execution\<rparr>])))))"

text \<open>
  The numpy reductions. \<open>np.min\<close> and \<open>np.max\<close> raise \<open>ValueError\<close> on an empty
  sequence; they are evaluated before \<open>np.mean\<close> and \<open>np.median\<close>, so these two never see
  one.
\<close>

fun np_min :: "real list \<Rightarrow> error + real" where
  "np_min [] = Inl (ValueError ''zero-size array to reduction operation minimum which has no identity'')"
| "np_min (x # xs) = Inr (fold min xs x)"

fun np_max :: "real list \<Rightarrow> error + real" where
  "np_max [] = Inl (ValueError ''zero-size array to reduction operation maximum which has no identity'')"
| "np_max (x # xs) = Inr (fold max xs x)"

definition np_mean :: "real list \<Rightarrow> real" where
  "np_mean xs = sum_list xs / real (length xs)"

definition np_median :: "real list \<Rightarrow> real" where
  "np_median xs =
     (let s = sort xs; n = length s
      in if odd n then s ! (n div 2) else (s ! (n div 2 - 1) + s ! (n div 2)) / 2)"

definition aggregate :: "real list \<Rightarrow> error + stats" where
  "aggregate data =
     (case np_min data of
        Inl er \<Rightarrow> Inl er
      | Inr lo \<Rightarrow>
          (case np_max data of
             Inl er \<Rightarrow> Inl er
           | Inr hi \<Rightarrow>
               Inr \<lparr>st_min = lo, st_max = hi, st_mean = np_mean data, st_median = np_median data\<rparr>))"

type_synonym agg_metrics = "(string \<times> (string \<times> stats) list) list"

text \<open>Lines 139 to 145 for one metric, and lines 138 to 145.\<close>

fun aggregate_directions :: "string \<Rightarrow> (string \<times> real list) list \<Rightarrow> agg_metrics \<Rightarrow> error + agg_metrics" where
  "aggregate_directions metric [] metrics = Inr metrics"
| "aggregate_directions metric ((direction, data) # rest) metrics =
     (case aggregate data of
        Inl er \<Rightarrow> Inl er
      | Inr st \<Rightarrow>
          aggregate_directions metric rest
            (AList.update metric (AList.update direction st (dd_get metrics metric)) metrics))"

fun aggregate_metrics :: "string list \<Rightarrow> exec_metrics \<Rightarrow> agg_metrics \<Rightarrow> error + agg_metrics" where
  "aggregate_metrics [] em metrics = Inr metrics"
| "aggregate_metrics (metric # rest) em metrics =
     (case aggregate_directions metric (dd_get em metric) metrics of
        Inl er \<Rightarrow> Inl er
      | Inr metrics' \<Rightarrow> aggregate_metrics rest em metrics')"

text \<open>Lines 151 to 153: the median of the configured direction of each key metric.\<close>

fun key_metrics_loop ::
  "(string \<times> string) list \<Rightarrow> agg_metrics \<Rightarrow> (string \<times> real) list \<Rightarrow> error + (string \<times> real) list" where
  "key_metrics_loop [] metrics km = Inr km"
| "key_metrics_loop ((name, direction) # rest) metrics km =
     (case map_of metrics name of
        None \<Rightarrow> key_metrics_loop rest metrics km
      | Some by_direction \<Rightarrow>
          (case dict_getitem by_direction direction of
             Inl er \<Rightarrow> Inl er
           | Inr st \<Rightarrow> key_metrics_loop rest metrics (AList.update name (st_median st) km)))"

text \<open>Lines 155 and 156: the path of the results file.\<close>

definition results_path :: "meta \<Rightarrow> mval \<Rightarrow> error + string" where
  "results_path md local_dir =
     (case dict_getitem md ''project'' of
        Inl er \<Rightarrow> Inl er
      | Inr p \<Rightarrow>
          (case dict_getitem md ''architecture'' of
             Inl er \<Rightarrow> Inl er
           | Inr a \<Rightarrow>
               (case dict_getitem md ''instance'' of
                  Inl er \<Rightarrow> Inl er
                | Inr i \<Rightarrow>
                    (case as_path local_dir of
                       Inl er \<Rightarrow> Inl er
                     | Inr dir \<Rightarrow>
                         Inr (path_join dir
                                (py_str p @ ''-'' @ py_str a @ ''-'' @ py_str i @ ''-results.json''))))))"

text \<open>
  The report before it is written: line 106 and lines 110 to 153 (line 107, the look-up
  of \<open>local_dir\<close>, is in \<open>Instance_record_results\<close>).
\<close>

definition build_report :: "Instance \<Rightarrow> error + report" where
  "build_report self =
     (case collect_executions (i_executions self) [] [] of
        Inl er \<Rightarrow> Inl er
      | Inr (em, executions) \<Rightarrow>
          (case aggregate_metrics (map fst em) em [] of
             Inl er \<Rightarrow> Inl er
           | Inr metrics \<Rightarrow>
               (case key_metrics_loop (i_key_metrics self) metrics [] of
                  Inl er \<Rightarrow> Inl er
                | Inr km \<Rightarrow>
                    Inr (instance_info.extend (get_instance_info self\<lparr>info_key_metrics := km\<rparr>)
                           (report.fields executions (i_meta_data self) metrics)))))"

definition Instance_record_results ::
  "keras_env \<Rightarrow> Instance \<Rightarrow> world \<Rightarrow> (error + report) \<times> Instance \<times> world" where
  "Instance_record_results env self w =
     (case dict_getitem (i_meta_data self) ''local_dir'' of
        Inl er \<Rightarrow> (Inl er, self, w)
      | Inr local_dir \<Rightarrow>
          (case build_report self of
             Inl er \<Rightarrow> (Inl er, self, w)
           | Inr results \<Rightarrow>
               (case results_path (i_meta_data self) local_dir of
                  Inl er \<Rightarrow> (Inl er, self, w)
                | Inr local_path \<Rightarrow>
                    (Inr results, self\<lparr>i_results := Some results\<rparr>,
                     emit (CloudSave local_path ''results'' (i_meta_data self))
                       (emit (FileWrite local_path (json_dumps env results)) w)))))"

section \<open>Observations and reference notions\<close>

text \<open>
  The model and the keyword arguments that a training dispatch in the trace was handed;
  \<open>None\<close> for an event that is not a dispatch.
\<close>

fun dispatched :: "event \<Rightarrow> (keras_model \<times> kwargs) option" where
  "dispatched (FitCall m x y kw) = Some (m, kw)"
| "dispatched (FitGeneratorCall m x kw) = Some (m, kw)"
| "dispatched (Summary m) = None"
| "dispatched (FileWrite p c) = None"
| "dispatched (SaveWeights m p) = None"
| "dispatched (CloudSave p t md) = None"

text \<open>
  The events that a call added to the trace of the world \<open>w\<close> it started in, and the
  training dispatches among them.
\<close>

definition new_events :: "world \<Rightarrow> world \<Rightarrow> event list" where
  "new_events w w' = drop (length (trace w)) (trace w')"

definition dispatches :: "world \<Rightarrow> world \<Rightarrow> (keras_model \<times> kwargs) list" where
  "dispatches w w' = List.map_filter dispatched (new_events w w')"

text \<open>
  The sequence that the aggregation is specified over: each execution's own minimum
  (for direction \<open>min\<close>) or maximum (for direction \<open>max\<close>) of the metric, in the order of
  the executions; an execution that did not record the metric contributes nothing.
\<close>

definition own_value :: "string \<Rightarrow> minmax \<Rightarrow> real" where
  "own_value direction r = (if direction = ''min'' then mm_min r else mm_max r)"

definition per_execution_values :: "string \<Rightarrow> string \<Rightarrow> execution list \<Rightarrow> real list" where
  "per_execution_values direction metric executions =
     concat (map (\<lambda>e. case e_metrics e of
                         None \<Rightarrow> []
                       | Some ms \<Rightarrow> (case map_of ms metric of
                                       None \<Rightarrow> []
                                     | Some r \<Rightarrow> [own_value direction r]))
                 executions)"

text \<open>Minimum, maximum, arithmetic mean and median of a sequence.\<close>

definition median :: "real list \<Rightarrow> real" where
  "median xs =
     (if even (length xs)
      then (sort xs ! (length xs div 2 - 1) + sort xs ! (length xs div 2)) / 2
      else sort xs ! (length xs div 2))"

definition stats_of :: "real list \<Rightarrow> stats" where
  "stats_of xs = \<lparr>st_min = Min (set xs), st_max = Max (set xs),
                  st_mean = sum_list xs / real (length xs), st_median = median xs\<rparr>"

definition lookup_aggregate :: "agg_metrics \<Rightarrow> string \<Rightarrow> string \<Rightarrow> stats option" where
  "lookup_aggregate metrics metric direction =
     (case map_of metrics metric of None \<Rightarrow> None | Some by_direction \<Rightarrow> map_of by_direction direction)"

text \<open>A dictionary has each key once.\<close>

definition recorded_ok :: "execution \<Rightarrow> bool" where
  "recorded_ok e = (case e_metrics e of None \<Rightarrow> True | Some ms \<Rightarrow> distinct (map fst ms))"

text \<open>
  Two notions for reasoning about the side mapping \<open>exec_metrics\<close>: the sequence stored
  for a metric and a direction, and its shape (each key once, no empty sequence).
\<close>

definition stored_values :: "exec_metrics \<Rightarrow> string \<Rightarrow> string \<Rightarrow> real list" where
  "stored_values em metric direction = dd_get (dd_get em metric) direction"

definition em_ok :: "exec_metrics \<Rightarrow> bool" where
  "em_ok em = (distinct (map fst em) \<and>
     (\<forall>m inner. map_of em m = Some inner \<longrightarrow>
        distinct (map fst inner) \<and> (\<forall>d data. map_of inner d = Some data \<longrightarrow> data \<noteq> [])))"

section \<open>Sample objects\<close>

definition ex_model :: keras_model where
  "ex_model = \<lparr>m_optimizer = ''sgd'', m_loss = ''mse'', m_metrics = [''acc''],
               m_loss_weights = None, m_trainable_weights = [0, 0, 1], m_json = ''{}''\<rparr>"

definition ex_env :: keras_env where
  "ex_env = \<lparr>clone_model = (\<lambda>m. m), int_shape = (\<lambda>a. [a + 1, 2]),
             model_fit = (\<lambda>c m x y kw. Inr [(''loss'', [0.9, 0.5, 0.3])]),
             model_fit_generator = (\<lambda>c m x kw. Inr [(''loss'', [0.9, 0.5, 0.3])]),
             json_dumps = (\<lambda>r. ''{}'')\<rparr>"

definition ex_tensorboard :: callback where
  "ex_tensorboard = KerasCallback ''keras.callbacks.TensorBoard'' (Some ''logs'')"

definition ex_world :: world where
  "ex_world = \<lparr>cells = (\<lambda>a. ex_tensorboard), next_addr = 1, trace = []\<rparr>"

definition ex_kwargs :: kwargs where
  "ex_kwargs = \<lparr>kw_callbacks = None, kw_validation_data = None, kw_initial_epoch = None,
                kw_other = [(''epochs'', MInt 3)]\<rparr>"

definition ex_meta :: meta where
  "ex_meta = [(''local_dir'', MStr ''/tmp''), (''project'', MStr ''p''), (''architecture'', MStr ''a'')]"

definition ex_instance :: Instance where
  "ex_instance = Instance_init ex_env 100 (MInt 7) ex_model [] ex_meta 1 32 None
                   [(''acc'', ''min'')] ''fit'' False"

definition ex_execution :: execution where
  "ex_execution = fst (InstanceExecution_init ex_env 101 ex_model (MInt 7) (i_meta_data ex_instance) 1
                         None False (get_instance_info ex_instance) [(''acc'', ''min'')] ''fit'' False ex_world)"

definition ex_recorded :: "real \<Rightarrow> real \<Rightarrow> execution" where
  "ex_recorded lo hi =
     ex_execution\<lparr>e_num_epochs := 1, e_history := Some [(''acc'', [lo, hi])],
                  e_metrics := Some [(''acc'', \<lparr>mm_min = lo, mm_max = hi\<rparr>)]\<rparr>"

text \<open>Two distinct weight tensors of \<open>2 ^ 62\<close> parameters each.\<close>

definition ex_big_env :: keras_env where
  "ex_big_env = ex_env\<lparr>int_shape := (\<lambda>a. [2 ^ 62])\<rparr>"

definition ex_big_model :: keras_model where
  "ex_big_model = ex_model\<lparr>m_trainable_weights := [0, 1]\<rparr>"

text \<open>
  The sample instance after one call of \<open>fit\<close>: the training returned the metric \<open>loss\<close>
  over three epochs.
\<close>

definition ex_first_fit :: "(error + history) \<times> Instance \<times> world" where
  "ex_first_fit = Instance_fit ex_env 101 102 ex_instance (PList [PFloat 0]) (PList [PFloat 1])
                    False ex_kwargs ex_world"

lemmas ex_defs = ex_instance_def ex_execution_def ex_recorded_def ex_env_def ex_model_def
  ex_world_def ex_kwargs_def ex_meta_def ex_tensorboard_def

lemmas run_defs = Instance_fit_def Instance_init_def InstanceExecution_init_def
  InstanceExecution_fit_def InstanceExecution_record_results_def finish_fit_def
  new_execution_def prepare_callbacks_def record_validation_size_def get_instance_info_def
  compute_model_size_def count_params_def alloc_def emit_def dispatches_def new_events_def
  List.map_filter_simps Let_def

lemmas report_defs = Instance_record_results_def build_report_def results_path_def
  dict_getitem_def dd_append_def dd_get_def aggregate_def np_mean_def np_median_def
  get_instance_info_def Instance_init_def InstanceExecution_init_def Let_def

section \<open>The trace and the callback store\<close>

lemma alloc_trace: "trace (snd (alloc cb w)) = trace w"
  by (simp add: alloc_def)

lemma deepcopy_refs_trace: "trace (snd (deepcopy_refs memo as w)) = trace w"
  by (induction as arbitrary: memo w)
     (simp_all add: alloc_def case_prod_beta Let_def split: option.splits)

lemma patch_tensorboard_trace: "trace (snd (patch_tensorboard self as w)) = trace w"
  by (induction as arbitrary: w) (simp_all add: Let_def split: option.splits)

lemma prepare_callbacks_trace: "trace (snd (prepare_callbacks self kw w)) = trace w"
  by (simp add: prepare_callbacks_def case_prod_beta Let_def alloc_trace deepcopy_refs_trace
      patch_tensorboard_trace split: option.splits)

lemma patch_tensorboard_error:
  "fst (patch_tensorboard self as w) = Some er \<Longrightarrow> \<exists>a. er = AttributeError a"
  by (induction as arbitrary: w) (auto simp: Let_def split: option.splits if_splits)

lemma prepare_callbacks_error:
  "fst (prepare_callbacks self kw w) = Inl er \<Longrightarrow> \<exists>a. er = AttributeError a"
  by (auto simp: prepare_callbacks_def Let_def case_prod_beta
      dest: patch_tensorboard_error split: option.splits if_splits)

lemma map_filter_append:
  "List.map_filter f (xs @ ys) = List.map_filter f xs @ List.map_filter f ys"
  by (simp add: List.map_filter_def)

lemma dispatches_append:
  "trace w' = trace w @ evs \<Longrightarrow> dispatches w w' = List.map_filter dispatched evs"
  by (simp add: dispatches_def new_events_def)

lemma dispatches_same: "dispatches w w = []"
  by (simp add: dispatches_def new_events_def List.map_filter_simps)

text \<open>
  What \<open>fit\<close> adds to the trace: at most one dispatch, of the execution's own model, with
  the keyword arguments it was given but for the callbacks.
\<close>

lemma fit_trace:
  "\<exists>evs. trace (snd (InstanceExecution_fit env self x y kw w)) = trace w @ evs
         \<and> (\<forall>(m, k) \<in> set (List.map_filter dispatched evs).
               m = e_model self \<and> (\<exists>cbs. k = kw\<lparr>kw_callbacks := Some cbs\<rparr>))"
proof (cases "prepare_callbacks self kw w")
  case (Pair r w1)
  have t: "trace w1 = trace w"
    using prepare_callbacks_trace[of self kw w] Pair by simp
  show ?thesis
  proof (cases r)
    case (Inl er)
    with Pair t show ?thesis
      by (simp add: InstanceExecution_fit_def List.map_filter_simps)
  next
    case (Inr cbs)
    with Pair t show ?thesis
      by (auto simp: InstanceExecution_fit_def emit_def List.map_filter_simps Let_def)
  qed
qed

lemma save_model_trace:
  "\<exists>evs. trace (snd (save_model self w)) = trace w @ evs \<and> List.map_filter dispatched evs = []"
  by (auto simp: save_model_def emit_def Let_def List.map_filter_simps split: sum.splits)

lemma record_results_trace:
  "\<exists>evs. trace (snd (snd (InstanceExecution_record_results now self results w))) = trace w @ evs
         \<and> List.map_filter dispatched evs = []"
  using save_model_trace
  by (auto simp: InstanceExecution_record_results_def Let_def case_prod_beta List.map_filter_simps
      split: option.splits)

lemma init_trace:
  "\<exists>evs. trace (snd (InstanceExecution_init env now model idx md g dm di info km kf sm w)) = trace w @ evs
         \<and> List.map_filter dispatched evs = []"
  by (auto simp: InstanceExecution_init_def Let_def emit_def List.map_filter_simps)

text \<open>
  \<open>fit\<close> writes only to callback objects that it has allocated itself: the copies and the
  results-recording callback. Objects that existed before the call keep their state.
\<close>

lemma deepcopy_refs_frame:
  "(\<forall>(a, a') \<in> set memo. n0 \<le> a') \<Longrightarrow> n0 \<le> next_addr w \<Longrightarrow>
   (\<forall>a' \<in> set (fst (deepcopy_refs memo as w)). n0 \<le> a')
   \<and> n0 \<le> next_addr (snd (deepcopy_refs memo as w))
   \<and> (\<forall>a < n0. cells (snd (deepcopy_refs memo as w)) a = cells w a)"
proof (induction as arbitrary: memo w)
  case Nil
  then show ?case by simp
next
  case (Cons a as)
  show ?case
  proof (cases "map_of memo a")
    case None
    let ?w1 = "snd (alloc (cells w a) w)"
    have m: "\<forall>(b, b') \<in> set ((a, next_addr w) # memo). n0 \<le> b'"
      using Cons.prems by auto
    have n: "n0 \<le> next_addr ?w1" using Cons.prems(2) by (simp add: alloc_def)
    have c: "\<forall>b < n0. cells ?w1 b = cells w b" using Cons.prems(2) by (simp add: alloc_def)
    from Cons.IH[OF m n] c None Cons.prems(2) show ?thesis
      by (simp add: case_prod_beta alloc_def)
  next
    case (Some a')
    then have "(a, a') \<in> set memo" by (rule map_of_SomeD)
    with Cons.prems(1) have "n0 \<le> a'" by auto
    with Cons.IH[OF Cons.prems] Some show ?thesis
      by (simp add: case_prod_beta)
  qed
qed

lemma patch_tensorboard_frame:
  "(\<forall>a' \<in> set as. n0 \<le> a') \<Longrightarrow>
   \<forall>a < n0. cells (snd (patch_tensorboard self as w)) a = cells w a"
  by (induction as arbitrary: w) (auto simp: Let_def split: option.splits)

lemma fit_keeps_callers_callbacks:
  "a < next_addr w \<Longrightarrow> cells (snd (InstanceExecution_fit env self x y kw w)) a = cells w a"
proof -
  assume a: "a < next_addr w"
  let ?tcb = "TunerCallback (e_instance_info self) (e_key_metrics self) (e_meta_data self)"
  let ?w0 = "snd (alloc ?tcb w)"
  have c0: "cells ?w0 a = cells w a" and n0: "next_addr w \<le> next_addr ?w0"
    using a by (simp_all add: alloc_def)
  have prep: "cells (snd (prepare_callbacks self kw w)) a = cells w a"
  proof (cases "kw_callbacks kw")
    case None
    then show ?thesis using c0 by (simp add: prepare_callbacks_def case_prod_beta)
  next
    case (Some refs)
    let ?dc = "deepcopy_refs [] refs ?w0"
    have d: "\<forall>a' \<in> set (fst ?dc). next_addr w \<le> a'"
      "\<forall>b < next_addr w. cells (snd ?dc) b = cells ?w0 b"
      using deepcopy_refs_frame[of "[]" "next_addr w" ?w0 refs] n0 by auto
    have p: "\<forall>b < next_addr w. cells (snd (patch_tensorboard self (fst ?dc) (snd ?dc))) b = cells (snd ?dc) b"
      using patch_tensorboard_frame[OF d(1)] by blast
    show ?thesis
      using Some c0 d(2) p a
      by (simp add: prepare_callbacks_def case_prod_beta Let_def split: option.splits)
  qed
  show ?thesis
    using prep
    by (cases "prepare_callbacks self kw w")
       (auto simp: InstanceExecution_fit_def emit_def Let_def split: sum.splits)
qed

section \<open>InstanceExecution.fit\<close>

text \<open>
  C1 (the source departs from the claim). For a \<open>keras_function\<close> that is neither
  \<open>fit\<close> nor \<open>generator\<close>, here \<open>predict\<close>, \<open>fit\<close> ends in an error and dispatches no
  training call, whatever the other arguments are; but the error is never the
  \<open>Exception\<close> built on line 69, which is not raised. With no callbacks it is the
  \<open>UnboundLocalError\<close> of \<open>return results\<close>.
\<close>

theorem fit_unknown_function_unbound_local:
  "(\<exists>er. fst (InstanceExecution_fit env (self\<lparr>e_keras_function := ''predict''\<rparr>) x y kw w) = Inl er
         \<and> er \<noteq> Exception msg)
   \<and> trace (snd (InstanceExecution_fit env (self\<lparr>e_keras_function := ''predict''\<rparr>) x y kw w))
       = trace w
   \<and> fst (InstanceExecution_fit env (self\<lparr>e_keras_function := ''predict''\<rparr>) x y
          (kw\<lparr>kw_callbacks := None\<rparr>) w) = Inl (UnboundLocalError ''results'')"
proof -
  let ?self = "self\<lparr>e_keras_function := ''predict''\<rparr>"
  obtain r w1 where p: "prepare_callbacks ?self kw w = (r, w1)"
    by (cases "prepare_callbacks ?self kw w")
  have t: "trace w1 = trace w"
    using prepare_callbacks_trace[of ?self kw w] p by simp
  have a: "\<exists>er. fst (InstanceExecution_fit env ?self x y kw w) = Inl er \<and> er \<noteq> Exception msg"
  proof (cases r)
    case (Inl er)
    then obtain a where "er = AttributeError a"
      using prepare_callbacks_error[of ?self kw w er] p by auto
    with Inl p show ?thesis by (simp add: InstanceExecution_fit_def)
  next
    case (Inr cbs)
    with p show ?thesis by (simp add: InstanceExecution_fit_def)
  qed
  have b: "trace (snd (InstanceExecution_fit env ?self x y kw w)) = trace w"
    using p t by (cases r) (simp_all add: InstanceExecution_fit_def)
  have c: "fst (InstanceExecution_fit env ?self x y (kw\<lparr>kw_callbacks := None\<rparr>) w)
             = Inl (UnboundLocalError ''results'')"
    by (simp add: InstanceExecution_fit_def prepare_callbacks_def alloc_def split: prod.splits)
  show ?thesis using a b c by blast
qed

text \<open>
  C8 (the source departs from the claim). An execution as its constructor builds it has
  no \<open>model_name\<close> attribute. Given a callback list holding one TensorBoard callback
  (the object at address 0 of the sample world, with \<open>log_dir = 'logs'\<close>), \<open>fit\<close> copies the
  list and then fails with \<open>AttributeError\<close> while building the suffix: no log directory
  is rewritten and no training is dispatched. The caller's own callback object is left as
  it was.
\<close>

theorem fit_tensorboard_attribute_error:
  "fst (InstanceExecution_fit env
          (fst (InstanceExecution_init env now model idx md g dm di info km kf sm w0)) x y
          (kw\<lparr>kw_callbacks := Some [0]\<rparr>) ex_world) = Inl (AttributeError ''model_name'')
   \<and> trace (snd (InstanceExecution_fit env
          (fst (InstanceExecution_init env now model idx md g dm di info km kf sm w0)) x y
          (kw\<lparr>kw_callbacks := Some [0]\<rparr>) ex_world)) = []
   \<and> cells (snd (InstanceExecution_fit env
          (fst (InstanceExecution_init env now model idx md g dm di info km kf sm w0)) x y
          (kw\<lparr>kw_callbacks := Some [0]\<rparr>) ex_world)) 0 = ex_tensorboard"
  by (simp add: InstanceExecution_fit_def prepare_callbacks_def alloc_def
      InstanceExecution_init_def Let_def ex_world_def ex_tensorboard_def str_type_def
      split: prod.splits)

text \<open>
  C9. In generator mode the outcome of \<open>fit\<close> (the value returned or the error raised,
  the callback store and the trace, which holds the arguments of the dispatch) is the same
  for any two values of \<open>y\<close>.
\<close>

theorem fit_generator_ignores_y:
  "e_keras_function self = ''generator'' \<Longrightarrow>
   InstanceExecution_fit env self x y kw w = InstanceExecution_fit env self x y' kw w"
  by (simp add: InstanceExecution_fit_def split: prod.splits sum.splits)

text \<open>
  The sample execution in generator mode, once with \<open>y = None\<close> and once with a list: the
  same training result, and the same single dispatch.
\<close>

theorem fit_generator_ignores_y_witness:
  "e_keras_function (ex_execution\<lparr>e_keras_function := ''generator''\<rparr>) = ''generator''
   \<and> InstanceExecution_fit ex_env (ex_execution\<lparr>e_keras_function := ''generator''\<rparr>)
        (PGenerator 0) PNone ex_kwargs ex_world
     = InstanceExecution_fit ex_env (ex_execution\<lparr>e_keras_function := ''generator''\<rparr>)
        (PGenerator 0) (PList [PFloat 1, PFloat 0]) ex_kwargs ex_world
   \<and> fst (InstanceExecution_fit ex_env (ex_execution\<lparr>e_keras_function := ''generator''\<rparr>)
        (PGenerator 0) (PList [PFloat 1, PFloat 0]) ex_kwargs ex_world)
     = Inr [(''loss'', [0.9, 0.5, 0.3])]
   \<and> length (dispatches ex_world
        (snd (InstanceExecution_fit ex_env (ex_execution\<lparr>e_keras_function := ''generator''\<rparr>)
           (PGenerator 0) (PList [PFloat 1, PFloat 0]) ex_kwargs ex_world))) = 1"
  using fit_generator_ignores_y
    [of "ex_execution\<lparr>e_keras_function := ''generator''\<rparr>" ex_env "PGenerator 0" PNone
        ex_kwargs ex_world "PList [PFloat 1, PFloat 0]"]
  by (simp add: ex_defs run_defs)

section \<open>InstanceExecution.record_results\<close>

lemma record_results_execution:
  "fst (snd (InstanceExecution_record_results now self results w)) =
     self\<lparr>e_history := Some results, e_num_epochs := int (length results), e_ts := now,
          e_metrics := Some (snd (record_metrics results []))\<rparr>"
  by (simp add: InstanceExecution_record_results_def Let_def split: prod.splits option.splits)

text \<open>
  C2 (the source departs from the claim). A freshly constructed execution has
  \<open>num_epochs = -1\<close>. For a history with the one metric \<open>loss\<close> recorded over three
  epochs, \<open>record_results\<close> sets \<open>num_epochs\<close> to 1, the number of metrics in the history,
  while the per-epoch sequence stored in \<open>history\<close> has length 3.
\<close>

theorem record_results_num_epochs_counts_metrics:
  "e_num_epochs (fst (InstanceExecution_init env t model idx md g dm di info km kf sm w0)) = - 1
   \<and> e_num_epochs (fst (snd (InstanceExecution_record_results now self
                             [(''loss'', [0.9, 0.5, 0.3])] w))) = 1
   \<and> map_option (map (\<lambda>(metric, values). (metric, length values)))
         (e_history (fst (snd (InstanceExecution_record_results now self
                                 [(''loss'', [0.9, 0.5, 0.3])] w))))
       = Some [(''loss'', 3)]"
  by (simp add: record_results_execution InstanceExecution_init_def Let_def)

lemma py_min_Min: "data \<noteq> [] \<Longrightarrow> py_min data = Inr (Min (set data))"
  by (cases data) (simp_all add: Min.set_eq_fold[symmetric])

lemma py_max_Max: "data \<noteq> [] \<Longrightarrow> py_max data = Inr (Max (set data))"
  by (cases data) (simp_all add: Max.set_eq_fold[symmetric])

lemma record_metrics_no_error:
  "[] \<notin> snd ` set h \<Longrightarrow> fst (record_metrics h acc) = None"
  by (induction h arbitrary: acc) (auto simp: py_min_Min py_max_Max)

lemma record_metrics_map_of:
  "distinct (map fst h) \<Longrightarrow> [] \<notin> snd ` set h \<Longrightarrow>
   map_of (snd (record_metrics h acc)) k =
     (case map_of h k of
        Some data \<Rightarrow> Some \<lparr>mm_min = Min (set data), mm_max = Max (set data)\<rparr>
      | None \<Rightarrow> map_of acc k)"
proof (induction h arbitrary: acc)
  case Nil
  then show ?case by simp
next
  case (Cons p h)
  obtain k0 d0 where p: "p = (k0, d0)" by (cases p)
  from Cons.prems p have ne: "d0 \<noteq> []" and rest: "[] \<notin> snd ` set h"
    and dist: "distinct (map fst h)" and fresh: "map_of h k0 = None"
    by (auto simp: map_of_eq_None_iff)
  show ?case
    using Cons.IH[OF dist rest] fresh
    by (simp add: p ne py_min_Min py_max_Max update_conv' split: option.splits)
qed

lemma record_metrics_keys:
  "[] \<notin> snd ` set h \<Longrightarrow>
   fst ` set (snd (record_metrics h acc)) = fst ` set acc \<union> fst ` set h"
proof (induction h arbitrary: acc)
  case Nil
  then show ?case by simp
next
  case (Cons p h)
  obtain k0 d0 where p: "p = (k0, d0)" by (cases p)
  from Cons.prems p have ne: "d0 \<noteq> []" and rest: "[] \<notin> snd ` set h" by auto
  have "fst ` set (AList.update k0 v acc) = insert k0 (fst ` set acc)" for v
    using dom_update[of k0 v acc] by (simp add: dom_map_of_conv_image_fst)
  then show ?case
    using Cons.IH[OF rest] by (simp add: p ne py_min_Min py_max_Max)
qed

text \<open>
  C5. For a history dictionary (each key once) whose value sequences are all non-empty,
  \<open>record_results\<close> leaves in \<open>metrics\<close> exactly the keys of the history, and for every
  key the entry holds the minimum and the maximum of that key's per-epoch values. (On an
  empty sequence \<open>min\<close> raises \<open>ValueError\<close>; there is no minimum to record.)
\<close>

theorem record_results_metrics_min_max:
  assumes "distinct (map fst results)" and "[] \<notin> snd ` set results"
  shows "\<exists>ms. e_metrics (fst (snd (InstanceExecution_record_results now self results w))) = Some ms
           \<and> fst ` set ms = fst ` set results
           \<and> (\<forall>(key, data) \<in> set results.
                 map_of ms key = Some \<lparr>mm_min = Min (set data), mm_max = Max (set data)\<rparr>)"
proof -
  let ?ms = "snd (record_metrics results [])"
  have "e_metrics (fst (snd (InstanceExecution_record_results now self results w))) = Some ?ms"
    by (simp add: InstanceExecution_record_results_def Let_def split: prod.splits option.splits)
  moreover have "fst ` set ?ms = fst ` set results"
    using record_metrics_keys[OF assms(2), of "[]"] by simp
  moreover have "map_of ?ms key = Some \<lparr>mm_min = Min (set data), mm_max = Max (set data)\<rparr>"
    if "(key, data) \<in> set results" for key data
    using record_metrics_map_of[OF assms, of "[]" key] that assms(1) by simp
  ultimately show ?thesis by blast
qed

theorem record_results_metrics_min_max_witness:
  "distinct (map fst [(''loss'', [0.9, 0.5, 0.3 :: real]), (''acc'', [0.1, 0.8, 0.6])])
   \<and> [] \<notin> snd ` set [(''loss'', [0.9, 0.5, 0.3 :: real]), (''acc'', [0.1, 0.8, 0.6])]
   \<and> (\<exists>ms. e_metrics (fst (snd (InstanceExecution_record_results 102 ex_execution
                 [(''loss'', [0.9, 0.5, 0.3]), (''acc'', [0.1, 0.8, 0.6])] ex_world))) = Some ms
         \<and> map_of ms ''loss'' = Some \<lparr>mm_min = 0.3, mm_max = 0.9\<rparr>
         \<and> map_of ms ''acc'' = Some \<lparr>mm_min = 0.1, mm_max = 0.8\<rparr>)"
  using record_results_metrics_min_max[of "[(''loss'', [0.9, 0.5, 0.3]), (''acc'', [0.1, 0.8, 0.6])]" 102 ex_execution ex_world]
  by auto

section \<open>Instance: the model size\<close>

lemma compute_model_size_sum:
  "compute_model_size env model = (\<Sum>p\<in>set (m_trainable_weights model). count_params env p)"
  unfolding compute_model_size_def
  by (simp add: sum.distinct_set_conv_list[symmetric])

lemma of_nat_prod_list_word: "prod_list (map of_nat xs) = (of_nat (prod_list xs) :: 64 word)"
  by (induction xs) simp_all

lemma count_params_exact: "count_params env p = of_nat (exact_params env p)"
  by (simp add: count_params_def exact_params_def of_nat_prod_list_word)

lemma compute_model_size_exact:
  "compute_model_size env model = of_nat (exact_model_size env model)"
  by (simp add: compute_model_size_sum exact_model_size_def count_params_exact)

lemma sint_of_nat_small:
  "n < 2 ^ 63 \<Longrightarrow> sint (of_nat n :: 64 word) = int n"
proof -
  assume "n < 2 ^ 63"
  then have "int n < 2 ^ 63" by (simp flip: of_nat_less_iff)
  moreover have "- (2 ^ 63) \<le> int n" by simp
  ultimately have "signed_take_bit 63 (int n) = int n"
    by (rule signed_take_bit_int_eq_self[rotated])
  then show ?thesis by (simp add: signed_of_nat)
qed

lemma finish_fit_model_size: "i_model_size (fst (snd (finish_fit t e self rw))) = i_model_size self"
  by (simp add: finish_fit_def Let_def split: prod.splits sum.splits option.splits)

lemma record_validation_size_model_size:
  "record_validation_size kw self = Inr self' \<Longrightarrow> i_model_size self' = i_model_size self"
  by (auto simp: record_validation_size_def split: option.splits if_splits sum.splits)

lemma new_execution_model_size:
  "new_execution env t self w = (e, self', w') \<Longrightarrow> i_model_size self' = i_model_size self"
  by (auto simp: new_execution_def Let_def split: prod.splits)

lemma Instance_fit_model_size:
  "i_model_size (fst (snd (Instance_fit env t1 t2 self x y r kw w))) = i_model_size self"
proof (cases "py_len y")
  case (Inl er)
  then show ?thesis by (simp add: Instance_fit_def)
next
  case (Inr n)
  note len = this
  show ?thesis
  proof (cases "record_validation_size kw (self\<lparr>i_training_size := int n\<rparr>)")
    case (Inl er)
    with len show ?thesis by (simp add: Instance_fit_def)
  next
    case (Inr self2)
    have s2: "i_model_size self2 = i_model_size self"
      using record_validation_size_model_size[OF Inr] by simp
    obtain e self3 w' where ne: "new_execution env t1 self2 w = (e, self3, w')"
      by (cases "new_execution env t1 self2 w") auto
    have s3: "i_model_size self3 = i_model_size self"
      using new_execution_model_size[OF ne] s2 by simp
    show ?thesis
      using len Inr s2 s3 ne
      by (simp add: Instance_fit_def Let_def finish_fit_model_size split: option.splits)
  qed
qed

lemma Instance_record_results_model_size:
  "i_model_size (fst (snd (Instance_record_results env self w))) = i_model_size self"
  by (auto simp: Instance_record_results_def split: sum.splits)

text \<open>
  C7, as stated, fails where the 64-bit sum wraps around. A model with two distinct weight
  tensors of \<open>2 ^ 62\<close> parameters each has \<open>2 ^ 63\<close> parameters; the constructor sets
  \<open>model_size\<close> to \<open>- 2 ^ 63\<close>.
\<close>

theorem model_size_wraps_counterexample:
  "int (exact_model_size ex_big_env ex_big_model) = 2 ^ 63
   \<and> sint (i_model_size (Instance_init ex_big_env 100 (MInt 7) ex_big_model [] ex_meta 1 32 None
                           [(''acc'', ''min'')] ''fit'' False)) = - (2 ^ 63)
   \<and> sint (i_model_size (Instance_init ex_big_env 100 (MInt 7) ex_big_model [] ex_meta 1 32 None
                           [(''acc'', ''min'')] ''fit'' False))
       \<noteq> int (exact_model_size ex_big_env ex_big_model)"
  by (simp add: Instance_init_def compute_model_size_def count_params_def ex_big_env_def
      ex_big_model_def ex_env_def ex_model_def exact_model_size_def exact_params_def)

text \<open>
  C7, amended. The constructor sets \<open>model_size\<close> to the 64-bit sum of the parameter
  counts over the set of the model's trainable weight tensors, so a tensor object listed
  more than once is counted once; that is the exact total over the set, wrapped to 64
  bits. Whenever the exact total over that set is below
  \<open>2 ^ 63\<close>, \<open>model_size\<close> is that total. \<open>fit\<close> and \<open>record_results\<close>, the other
  methods, leave \<open>model_size\<close> as the constructor set it.
\<close>

theorem model_size_deduplicated_once:
  "i_model_size (Instance_init env now idx model hp md g b dm km kf sm) =
     (\<Sum>p\<in>set (m_trainable_weights model). count_params env p)
   \<and> i_model_size (Instance_init env now idx model hp md g b dm km kf sm) =
       word_of_nat (exact_model_size env model)
   \<and> (exact_model_size env model < 2 ^ 63 \<longrightarrow>
        sint (i_model_size (Instance_init env now idx model hp md g b dm km kf sm))
          = int (exact_model_size env model))
   \<and> i_model_size (fst (snd (Instance_fit env t1 t2 self x y r kw w))) = i_model_size self
   \<and> i_model_size (fst (snd (Instance_record_results env self w'))) = i_model_size self"
proof -
  have size: "i_model_size (Instance_init env now idx model hp md g b dm km kf sm)
                = compute_model_size env model"
    by (simp add: Instance_init_def)
  have exact: "sint (i_model_size (Instance_init env now idx model hp md g b dm km kf sm))
                 = int (exact_model_size env model)"
    if "exact_model_size env model < 2 ^ 63"
    using sint_of_nat_small[OF that] by (simp add: size compute_model_size_exact)
  show ?thesis
    using exact compute_model_size_exact[of env model]
    by (simp add: size compute_model_size_sum Instance_fit_model_size
        Instance_record_results_model_size)
qed

text \<open>
  The sample model lists the tensor at address 0 twice and the tensor at address 1 once;
  with 2 and 4 parameters its size is 6, not 8.
\<close>

theorem model_size_deduplicated_once_witness:
  "m_trainable_weights ex_model = [0, 0, 1] \<and> exact_params ex_env 0 = 2
   \<and> exact_params ex_env 1 = 4 \<and> exact_model_size ex_env ex_model = 6
   \<and> sint (i_model_size ex_instance) = 6"
proof -
  have "exact_model_size ex_env ex_model < 2 ^ 63 \<longrightarrow>
          sint (i_model_size (Instance_init ex_env 100 (MInt 7) ex_model [] ex_meta 1 32 None
                                [(''acc'', ''min'')] ''fit'' False))
            = int (exact_model_size ex_env ex_model)"
    using model_size_deduplicated_once
      [where env = ex_env and now = 100 and idx = "MInt 7" and model = ex_model and hp = "[]"
         and md = ex_meta and g = 1 and b = 32 and dm = None and km = "[(''acc'', ''min'')]"
         and kf = "''fit''" and sm = False]
    by blast
  then show ?thesis
    by (simp add: ex_instance_def ex_model_def ex_env_def exact_model_size_def exact_params_def)
qed

section \<open>Instance.fit\<close>

lemma record_validation_size_executions:
  "record_validation_size kw self = Inr self' \<Longrightarrow> i_executions self' = i_executions self"
  by (auto simp: record_validation_size_def split: option.splits if_splits sum.splits)

lemma record_validation_size_fields:
  "record_validation_size kw self = Inr self' \<Longrightarrow>
   i_model self' = i_model self \<and> i_idx self' = i_idx self
   \<and> i_meta_data self' = i_meta_data self \<and> i_num_gpu self' = i_num_gpu self
   \<and> i_display_model self' = i_display_model self \<and> i_key_metrics self' = i_key_metrics self
   \<and> i_keras_function self' = i_keras_function self \<and> i_save_models self' = i_save_models self"
  by (auto simp: record_validation_size_def split: option.splits if_splits sum.splits)

lemma finish_fit_executions:
  "i_executions self \<noteq> [] \<Longrightarrow>
   length (i_executions (fst (snd (finish_fit t e self rw)))) = length (i_executions self)
   \<and> butlast (i_executions (fst (snd (finish_fit t e self rw)))) = butlast (i_executions self)"
  by (cases rw) (auto simp: finish_fit_def Let_def case_prod_beta split: sum.splits)

lemma finish_fit_trace:
  "\<exists>evs. trace (snd (snd (finish_fit t e self (r, w1)))) = trace w1 @ evs
         \<and> List.map_filter dispatched evs = []"
proof (cases r)
  case (Inl er)
  then show ?thesis by (simp add: finish_fit_def List.map_filter_simps)
next
  case (Inr results)
  then show ?thesis
    using record_results_trace[of t e results w1]
    by (simp add: finish_fit_def Let_def case_prod_beta)
qed

text \<open>Training an execution and recording its results: the dispatches are those of fit.\<close>

lemma fit_then_finish_trace:
  "\<exists>evs. trace (snd (snd (finish_fit t e' self (InstanceExecution_fit env e x y kw w))))
            = trace w @ evs
         \<and> (\<forall>(m, k) \<in> set (List.map_filter dispatched evs).
               m = e_model e \<and> (\<exists>cbs. k = kw\<lparr>kw_callbacks := Some cbs\<rparr>))"
proof -
  obtain r w1 where f: "InstanceExecution_fit env e x y kw w = (r, w1)"
    by (cases "InstanceExecution_fit env e x y kw w")
  obtain evs where e1: "trace w1 = trace w @ evs"
    and d1: "\<forall>(m, k) \<in> set (List.map_filter dispatched evs).
               m = e_model e \<and> (\<exists>cbs. k = kw\<lparr>kw_callbacks := Some cbs\<rparr>)"
    using fit_trace[of env e x y kw w] f by auto
  obtain evs' where e2: "trace (snd (snd (finish_fit t e' self (r, w1)))) = trace w1 @ evs'"
    and d2: "List.map_filter dispatched evs' = []"
    using finish_fit_trace[of t e' self r w1] by auto
  have "trace (snd (snd (finish_fit t e' self (r, w1)))) = trace w @ (evs @ evs')"
    using e1 e2 by simp
  moreover have "List.map_filter dispatched (evs @ evs') = List.map_filter dispatched evs"
    using d2 by (simp add: map_filter_append)
  ultimately show ?thesis using d1 f by auto
qed

lemma fit_then_finish_dispatches:
  "\<forall>(m, k) \<in> set (dispatches w (snd (snd (finish_fit t e' self
                      (InstanceExecution_fit env e x y kw w))))).
      m = e_model e \<and> (\<exists>cbs. k = kw\<lparr>kw_callbacks := Some cbs\<rparr>)"
proof -
  obtain evs where "trace (snd (snd (finish_fit t e' self (InstanceExecution_fit env e x y kw w))))
            = trace w @ evs"
    and "\<forall>(m, k) \<in> set (List.map_filter dispatched evs).
               m = e_model e \<and> (\<exists>cbs. k = kw\<lparr>kw_callbacks := Some cbs\<rparr>)"
    using fit_then_finish_trace[of t e' self env e x y kw w] by blast
  then show ?thesis by (simp add: dispatches_append)
qed

lemma record_results_resets:
  "(fst (snd (InstanceExecution_record_results now self results w)))
      \<lparr>e_history := h, e_metrics := ms, e_num_epochs := n, e_ts := t\<rparr>
   = self\<lparr>e_history := h, e_metrics := ms, e_num_epochs := n, e_ts := t\<rparr>"
  by (simp add: record_results_execution)

lemma finish_fit_appended:
  "\<exists>e'. i_executions (fst (snd (finish_fit t e (self\<lparr>i_executions := es @ [e]\<rparr>) rw))) = es @ [e']
        \<and> e'\<lparr>e_history := h, e_metrics := ms, e_num_epochs := n, e_ts := t0\<rparr>
            = e\<lparr>e_history := h, e_metrics := ms, e_num_epochs := n, e_ts := t0\<rparr>"
proof (cases rw)
  case (Pair r w1)
  show ?thesis
  proof (cases r)
    case (Inl er)
    with Pair show ?thesis by (simp add: finish_fit_def)
  next
    case (Inr results)
    with Pair show ?thesis
      using record_results_resets[where now = t and self = e and results = results and w = w1]
      by (simp add: finish_fit_def Let_def case_prod_beta)
  qed
qed

text \<open>
  What a call with \<open>resume_execution = True\<close> does on an instance with at least one
  execution. No execution is created: the list of executions keeps its length and its
  earlier entries. Every training dispatch of the call is on the model of the most
  recently appended execution and carries \<open>initial_epoch\<close> equal to that execution's
  \<open>num_epochs\<close> at the time of the call. When the call gets as far as the dispatch (\<open>y\<close>
  has a length, the validation data, if any, can be measured, and the caller passes no
  \<open>initial_epoch\<close> of their own, which would collide with the keyword that \<open>fit\<close> adds),
  it is the call of the last execution's \<open>fit\<close> with that \<open>initial_epoch\<close>, followed by
  the recording of its results.
\<close>

lemma fit_resume_dispatch:
  assumes "i_executions self \<noteq> []"
  shows "length (i_executions (fst (snd (Instance_fit env t_new t_rec self x y True kw w))))
             = length (i_executions self)
         \<and> butlast (i_executions (fst (snd (Instance_fit env t_new t_rec self x y True kw w))))
             = butlast (i_executions self)
         \<and> (\<forall>(m, k) \<in> set (dispatches w (snd (snd (Instance_fit env t_new t_rec self x y True kw w)))).
               m = e_model (last (i_executions self))
               \<and> kw_initial_epoch k = Some (e_num_epochs (last (i_executions self))))
         \<and> (py_len y = Inr n
              \<and> record_validation_size kw (self\<lparr>i_training_size := int n\<rparr>) = Inr self2
              \<and> kw_initial_epoch kw = None \<longrightarrow>
            Instance_fit env t_new t_rec self x y True kw w =
              finish_fit t_rec (last (i_executions self)) self2
                (InstanceExecution_fit env (last (i_executions self)) x y
                   (kw\<lparr>kw_initial_epoch := Some (e_num_epochs (last (i_executions self)))\<rparr>) w))"
proof -
  let ?e = "last (i_executions self)"
  let ?kw = "kw\<lparr>kw_initial_epoch := Some (e_num_epochs ?e)\<rparr>"
  let ?run = "Instance_fit env t_new t_rec self x y True kw w"
  let ?P = "length (i_executions (fst (snd ?run))) = length (i_executions self)
         \<and> butlast (i_executions (fst (snd ?run))) = butlast (i_executions self)
         \<and> (\<forall>(m, k) \<in> set (dispatches w (snd (snd ?run))).
               m = e_model ?e \<and> kw_initial_epoch k = Some (e_num_epochs ?e))"
  have eq: "?run = finish_fit t_rec ?e s2 (InstanceExecution_fit env ?e x y ?kw w)"
    if "py_len y = Inr k" "record_validation_size kw (self\<lparr>i_training_size := int k\<rparr>) = Inr s2"
      "kw_initial_epoch kw = None" for k s2
    using that assms record_validation_size_executions[OF that(2)]
    by (simp add: Instance_fit_def Let_def)
  have P: ?P
  proof (cases "py_len y")
    case (Inl er)
    then show ?thesis by (simp add: Instance_fit_def dispatches_same)
  next
    case (Inr k)
    note len = this
    show ?thesis
    proof (cases "record_validation_size kw (self\<lparr>i_training_size := int k\<rparr>)")
      case (Inl er)
      with len show ?thesis by (simp add: Instance_fit_def dispatches_same)
    next
      case (Inr s2)
      have ex2: "i_executions s2 = i_executions self"
        using record_validation_size_executions[OF Inr] by simp
      show ?thesis
      proof (cases "kw_initial_epoch kw")
        case (Some dup)
        with len Inr ex2 assms show ?thesis
          by (simp add: Instance_fit_def dispatches_same)
      next
        case None
        note e = eq[OF len Inr None]
        have ne2: "i_executions s2 \<noteq> []" using ex2 assms by simp
        have "\<forall>(m, k) \<in> set (dispatches w (snd (snd ?run))).
               m = e_model ?e \<and> kw_initial_epoch k = Some (e_num_epochs ?e)"
          using fit_then_finish_dispatches[of w t_rec ?e s2 env ?e x y ?kw]
          by (auto simp: e)
        then show ?thesis
          using finish_fit_executions[OF ne2, of t_rec ?e] ex2 by (simp add: e)
      qed
    qed
  qed
  show ?thesis using P eq by blast
qed

text \<open>
  C4 (the source departs from the claim). The sample instance is trained once; the
  training returns one metric over three epochs, and \<open>record_results\<close> leaves
  \<open>num_epochs = 1\<close> in the execution. A second call with \<open>resume_execution = True\<close>
  creates no execution and dispatches the training of that execution with
  \<open>initial_epoch = 1\<close>: the value of \<open>num_epochs\<close>, but not the number of epochs already
  trained, 3, so the epoch numbering does not continue where the first run ended.
\<close>

theorem fit_resume_initial_epoch_counts_metrics:
  "map (\<lambda>e. map_option (map (\<lambda>(metric, values). (metric, length values))) (e_history e))
         (i_executions (fst (snd ex_first_fit))) = [Some [(''loss'', 3)]]
   \<and> map e_num_epochs (i_executions (fst (snd ex_first_fit))) = [1]
   \<and> length (i_executions (fst (snd (Instance_fit ex_env 103 104 (fst (snd ex_first_fit))
         (PList [PFloat 0]) (PList [PFloat 1]) True ex_kwargs (snd (snd ex_first_fit)))))) = 1
   \<and> map (\<lambda>(m, k). kw_initial_epoch k)
         (dispatches (snd (snd ex_first_fit))
            (snd (snd (Instance_fit ex_env 103 104 (fst (snd ex_first_fit))
               (PList [PFloat 0]) (PList [PFloat 1]) True ex_kwargs (snd (snd ex_first_fit))))))
       = [Some 1]"
  by (simp add: ex_first_fit_def ex_defs run_defs)

text \<open>
  C10. With no executions, \<open>fit\<close> with \<open>resume_execution = True\<close> is the same call as
  with \<open>resume_execution = False\<close>: same result or error, same instance, same world.
  Every training dispatch of the call carries the caller's own \<open>initial_epoch\<close> (none if
  the caller gave none). When the call gets past the two size measurements, the instance
  ends with exactly one execution, which is the one the constructor builds at that moment,
  up to the results recorded in it.
\<close>

theorem fit_resume_without_executions_starts_new:
  assumes "i_executions self = []"
  shows "Instance_fit env t_new t_rec self x y True kw w
           = Instance_fit env t_new t_rec self x y False kw w
         \<and> (\<forall>(m, k) \<in> set (dispatches w (snd (snd (Instance_fit env t_new t_rec self x y True kw w)))).
               kw_initial_epoch k = kw_initial_epoch kw)
         \<and> (py_len y = Inr n
              \<and> record_validation_size kw (self\<lparr>i_training_size := int n\<rparr>) = Inr self2 \<longrightarrow>
            (\<exists>e'. i_executions (fst (snd (Instance_fit env t_new t_rec self x y True kw w))) = [e']
                  \<and> e'\<lparr>e_history := None, e_metrics := None, e_num_epochs := - 1, e_ts := t_new\<rparr>
                      = fst (InstanceExecution_init env t_new (i_model self) (i_idx self)
                               (i_meta_data self) (i_num_gpu self) (i_display_model self) True
                               (get_instance_info self2) (i_key_metrics self)
                               (i_keras_function self) (i_save_models self) w)))"
proof -
  let ?run = "Instance_fit env t_new t_rec self x y True kw w"
  let ?init = "\<lambda>s2. InstanceExecution_init env t_new (i_model self) (i_idx self)
                   (i_meta_data self) (i_num_gpu self) (i_display_model self) True
                   (get_instance_info s2) (i_key_metrics self)
                   (i_keras_function self) (i_save_models self) w"
  have same: "?run = Instance_fit env t_new t_rec self x y False kw w"
  proof (cases "py_len y")
    case (Inl er)
    then show ?thesis by (simp add: Instance_fit_def)
  next
    case (Inr m)
    note len = this
    show ?thesis
    proof (cases "record_validation_size kw (self\<lparr>i_training_size := int m\<rparr>)")
      case (Inl er)
      with len show ?thesis by (simp add: Instance_fit_def)
    next
      case (Inr s2)
      have "i_executions s2 = []"
        using record_validation_size_executions[OF Inr] assms by simp
      with len Inr show ?thesis by (simp add: Instance_fit_def)
    qed
  qed
  have eq: "?run = finish_fit t_rec (fst (?init s2)) (s2\<lparr>i_executions := [] @ [fst (?init s2)]\<rparr>)
                     (InstanceExecution_fit env (fst (?init s2)) x y kw (snd (?init s2)))"
    if len: "py_len y = Inr k"
      and val: "record_validation_size kw (self\<lparr>i_training_size := int k\<rparr>) = Inr s2" for k s2
  proof -
    have ex2: "i_executions s2 = []"
      using record_validation_size_executions[OF val] assms by simp
    have flds: "i_model s2 = i_model self" "i_idx s2 = i_idx self"
      "i_meta_data s2 = i_meta_data self" "i_num_gpu s2 = i_num_gpu self"
      "i_display_model s2 = i_display_model self" "i_key_metrics s2 = i_key_metrics self"
      "i_keras_function s2 = i_keras_function self" "i_save_models s2 = i_save_models self"
      using record_validation_size_fields[OF val] by simp_all
    have ne: "new_execution env t_new s2 w
                = (fst (?init s2), s2\<lparr>i_executions := [] @ [fst (?init s2)]\<rparr>, snd (?init s2))"
      by (simp add: new_execution_def Let_def case_prod_beta ex2 flds)
    show ?thesis using len val ex2 ne by (simp add: Instance_fit_def)
  qed
  have disp: "\<forall>(m, k) \<in> set (dispatches w (snd (snd ?run))). kw_initial_epoch k = kw_initial_epoch kw"
  proof (cases "py_len y")
    case (Inl er)
    then show ?thesis by (simp add: Instance_fit_def dispatches_same)
  next
    case (Inr k)
    note len = this
    show ?thesis
    proof (cases "record_validation_size kw (self\<lparr>i_training_size := int k\<rparr>)")
      case (Inl er)
      with len show ?thesis by (simp add: Instance_fit_def dispatches_same)
    next
      case (Inr s2)
      let ?e0 = "fst (?init s2)" and ?w0 = "snd (?init s2)"
      let ?s3 = "s2\<lparr>i_executions := [] @ [?e0]\<rparr>"
      note e = eq[OF len Inr]
      obtain evs0 where t0: "trace ?w0 = trace w @ evs0"
        and d0: "List.map_filter dispatched evs0 = []"
        using init_trace by blast
      obtain evs where t1: "trace (snd (snd (finish_fit t_rec ?e0 ?s3
                              (InstanceExecution_fit env ?e0 x y kw ?w0)))) = trace ?w0 @ evs"
        and d1: "\<forall>(m, k) \<in> set (List.map_filter dispatched evs).
                 m = e_model ?e0 \<and> (\<exists>cbs. k = kw\<lparr>kw_callbacks := Some cbs\<rparr>)"
        using fit_then_finish_trace[of t_rec ?e0 ?s3 env ?e0 x y kw ?w0] by blast
      have "dispatches w (snd (snd ?run)) = List.map_filter dispatched evs"
        using dispatches_append[of _ w "evs0 @ evs"] t0 t1 d0 by (simp add: e map_filter_append)
      with d1 show ?thesis by auto
    qed
  qed
  have new: "\<exists>e'. i_executions (fst (snd ?run)) = [e']
                  \<and> e'\<lparr>e_history := None, e_metrics := None, e_num_epochs := - 1, e_ts := t_new\<rparr>
                      = fst (?init self2)"
    if len: "py_len y = Inr n"
      and val: "record_validation_size kw (self\<lparr>i_training_size := int n\<rparr>) = Inr self2"
  proof -
    let ?e0 = "fst (?init self2)" and ?w0 = "snd (?init self2)"
    note e = eq[OF len val]
    have fresh: "?e0\<lparr>e_history := None, e_metrics := None, e_num_epochs := - 1, e_ts := t_new\<rparr> = ?e0"
      by (simp add: InstanceExecution_init_def Let_def)
    obtain e' where e': "i_executions (fst (snd (finish_fit t_rec ?e0
                            (self2\<lparr>i_executions := [] @ [?e0]\<rparr>)
                            (InstanceExecution_fit env ?e0 x y kw ?w0)))) = [] @ [e']"
      and same': "e'\<lparr>e_history := None, e_metrics := None, e_num_epochs := - 1, e_ts := t_new\<rparr>
                 = ?e0\<lparr>e_history := None, e_metrics := None, e_num_epochs := - 1, e_ts := t_new\<rparr>"
      using finish_fit_appended[where t = t_rec and e = ?e0 and self = self2 and es = "[]"
          and rw = "InstanceExecution_fit env ?e0 x y kw ?w0"
          and h = None and ms = None and n = "- 1" and ?t0.0 = t_new]
      by blast
    show ?thesis using e' same' fresh by (simp add: e)
  qed
  show ?thesis using same disp new by blast
qed

theorem fit_resume_without_executions_starts_new_witness:
  "i_executions ex_instance = []
   \<and> py_len (PList [PFloat 1]) = Inr 1
   \<and> Instance_fit ex_env 101 102 ex_instance (PList [PFloat 0]) (PList [PFloat 1]) True ex_kwargs ex_world
       = Instance_fit ex_env 101 102 ex_instance (PList [PFloat 0]) (PList [PFloat 1]) False ex_kwargs ex_world
   \<and> length (i_executions (fst (snd (Instance_fit ex_env 101 102 ex_instance
         (PList [PFloat 0]) (PList [PFloat 1]) True ex_kwargs ex_world)))) = 1
   \<and> map (\<lambda>(m, k). kw_initial_epoch k) (dispatches ex_world (snd (snd (Instance_fit ex_env 101 102
         ex_instance (PList [PFloat 0]) (PList [PFloat 1]) True ex_kwargs ex_world)))) = [None]"
  using fit_resume_without_executions_starts_new
    [where self = ex_instance and env = ex_env and t_new = 101 and t_rec = 102
       and x = "PList [PFloat 0]" and y = "PList [PFloat 1]" and kw = ex_kwargs and w = ex_world
       and n = 1 and ?self2.0 = "ex_instance\<lparr>i_training_size := 1\<rparr>"]
  by (simp add: ex_defs run_defs)

section \<open>Instance.record_results\<close>

lemma key_metrics_loop_empty: "key_metrics_loop km [] acc = Inr acc"
  by (induction km) auto

text \<open>
  C6. With no executions, the report that \<open>Instance.record_results\<close> assembles has empty
  per-execution details, an empty aggregate metrics mapping and an empty key-metrics
  summary, and assembling it raises nothing. The call as a whole returns that report, and
  stores it in \<open>results\<close>, when the metadata holds the entries the path of the results
  file is built from (\<open>local_dir\<close>, a string, and \<open>project\<close>, \<open>architecture\<close>,
  \<open>instance\<close>).
\<close>

theorem record_results_no_executions:
  assumes "i_executions self = []"
  shows "(\<exists>rep. build_report self = Inr rep
            \<and> rep_executions rep = [] \<and> rep_metrics rep = [] \<and> info_key_metrics rep = [])
         \<and> (map_of (i_meta_data self) ''local_dir'' = Some (MStr dir)
              \<and> map_of (i_meta_data self) ''project'' = Some p
              \<and> map_of (i_meta_data self) ''architecture'' = Some a
              \<and> map_of (i_meta_data self) ''instance'' = Some i \<longrightarrow>
            (\<exists>rep self' w'. Instance_record_results env self w = (Inr rep, self', w')
               \<and> rep_executions rep = [] \<and> rep_metrics rep = [] \<and> info_key_metrics rep = []
               \<and> i_results self' = Some rep))"
proof -
  have rep: "\<exists>rep. build_report self = Inr rep
            \<and> rep_executions rep = [] \<and> rep_metrics rep = [] \<and> info_key_metrics rep = []"
    using assms
    by (simp add: build_report_def key_metrics_loop_empty instance_info.extend_def
        report.fields_def get_instance_info_def)
  have run: "\<exists>rep self' w'. Instance_record_results env self w = (Inr rep, self', w')
               \<and> rep_executions rep = [] \<and> rep_metrics rep = [] \<and> info_key_metrics rep = []
               \<and> i_results self' = Some rep"
    if "map_of (i_meta_data self) ''local_dir'' = Some (MStr dir)"
      "map_of (i_meta_data self) ''project'' = Some p"
      "map_of (i_meta_data self) ''architecture'' = Some a"
      "map_of (i_meta_data self) ''instance'' = Some i"
    using rep that
    by (auto simp: Instance_record_results_def dict_getitem_def results_path_def)
  show ?thesis using rep run by blast
qed

theorem record_results_no_executions_witness:
  "i_executions ex_instance = []
   \<and> map_of (i_meta_data ex_instance) ''local_dir'' = Some (MStr ''/tmp'')
   \<and> (\<exists>rep self' w'. Instance_record_results ex_env ex_instance ex_world = (Inr rep, self', w')
           \<and> rep_executions rep = [] \<and> rep_metrics rep = [] \<and> info_key_metrics rep = []
           \<and> i_results self' = Some rep)"
  using record_results_no_executions
    [where self = ex_instance and dir = "''/tmp''" and p = "MStr ''p''" and a = "MStr ''a''"
       and i = "MInt 7" and env = ex_env and w = ex_world]
  by (simp add: ex_instance_def Instance_init_def ex_meta_def)

lemma em_ok_Nil: "em_ok []"
  by (simp add: em_ok_def)

lemma stored_values_Nil: "stored_values [] m d = []"
  by (simp add: stored_values_def dd_get_def)

lemma stored_values_dd_append:
  "stored_values (dd_append m d v em) m' d' =
     (if m' = m \<and> d' = d then stored_values em m d @ [v] else stored_values em m' d')"
  by (auto simp: stored_values_def dd_append_def dd_get_def Let_def update_conv'
      split: option.splits)

lemma em_ok_dd_append:
  assumes "em_ok em"
  shows "em_ok (dd_append m d v em)"
proof -
  let ?inner = "dd_get em m"
  let ?inner' = "AList.update d (dd_get ?inner d @ [v]) ?inner"
  have di: "distinct (map fst ?inner)"
    using assms by (auto simp: em_ok_def dd_get_def split: option.splits)
  have ne: "data \<noteq> []" if "map_of ?inner d' = Some data" for d' data
  proof (cases "map_of em m")
    case None
    with that show ?thesis by (simp add: dd_get_def)
  next
    case (Some inner)
    with that have "map_of inner d' = Some data" by (simp add: dd_get_def)
    with assms Some show ?thesis unfolding em_ok_def by blast
  qed
  have di': "distinct (map fst ?inner')"
    using di by (rule distinct_update)
  have ne': "data \<noteq> []" if "map_of ?inner' d' = Some data" for d' data
    using that ne[of d' data] by (auto simp: update_conv' split: if_splits)
  have "distinct (map fst (AList.update m ?inner' em))"
    using assms by (simp add: em_ok_def distinct_update)
  moreover have "distinct (map fst inner) \<and> (\<forall>d data. map_of inner d = Some data \<longrightarrow> data \<noteq> [])"
    if "map_of (AList.update m ?inner' em) m' = Some inner" for m' inner
  proof (cases "m' = m")
    case True
    with that have "inner = ?inner'" by (simp add: update_conv')
    with di' ne' show ?thesis by blast
  next
    case False
    with that have "map_of em m' = Some inner" by (simp add: update_conv')
    with assms show ?thesis unfolding em_ok_def by blast
  qed
  ultimately show ?thesis
    unfolding em_ok_def dd_append_def Let_def by blast
qed

lemma collect_metrics_values:
  assumes "collect_metrics ms items em = Inr em'"
    and "distinct (map fst ms)" and "distinct (map fst items)" and "set items \<subseteq> set ms"
    and "em_ok em" and "d = ''min'' \<or> d = ''max''"
  shows "em_ok em' \<and>
         stored_values em' m d =
           stored_values em m d @ (case map_of items m of None \<Rightarrow> [] | Some r \<Rightarrow> [own_value d r])"
  using assms
proof (induction items arbitrary: em)
  case Nil
  then show ?case by simp
next
  case (Cons p items)
  obtain k r where p: "p = (k, r)" by (cases p)
  from Cons.prems p have "(k, r) \<in> set ms" by simp
  with Cons.prems(2) have look: "dict_getitem ms k = Inr r"
    by (simp add: dict_getitem_def)
  let ?em1 = "dd_append k ''max'' (mm_max r) (dd_append k ''min'' (mm_min r) em)"
  from Cons.prems p look have run: "collect_metrics ms items ?em1 = Inr em'"
    by simp
  have ok1: "em_ok ?em1"
    using Cons.prems(5) by (simp add: em_ok_dd_append)
  have fresh: "map_of items k = None"
    using Cons.prems(3) p by (simp add: map_of_eq_None_iff)
  from Cons.IH[OF run Cons.prems(2) _ _ ok1 Cons.prems(6)] Cons.prems p
  have IH: "em_ok em'" "stored_values em' m d =
           stored_values ?em1 m d @ (case map_of items m of None \<Rightarrow> [] | Some r \<Rightarrow> [own_value d r])"
    by auto
  show ?case
    using IH fresh Cons.prems(6)
    by (auto simp: p stored_values_dd_append own_value_def)
qed

lemma per_execution_values_Cons:
  "per_execution_values d m (e # es) =
     (case e_metrics e of
        None \<Rightarrow> []
      | Some ms \<Rightarrow> (case map_of ms m of None \<Rightarrow> [] | Some r \<Rightarrow> [own_value d r]))
     @ per_execution_values d m es"
  by (simp add: per_execution_values_def)

lemma collect_executions_values:
  assumes "collect_executions es em xs = Inr (em', xs')"
    and "\<forall>e \<in> set es. recorded_ok e"
    and "em_ok em" and "d = ''min'' \<or> d = ''max''"
  shows "em_ok em' \<and> stored_values em' m d = stored_values em m d @ per_execution_values d m es"
  using assms
proof (induction es arbitrary: em xs)
  case Nil
  then show ?case by (simp add: per_execution_values_def)
next
  case (Cons e es)
  from Cons.prems(1) obtain ms em1 h where
    ms: "e_metrics e = Some ms" and c: "collect_metrics ms ms em = Inr em1"
    and rest: "collect_executions es em1
                 (xs @ [\<lparr>xi_num_epochs = e_num_epochs e, xi_history = h,
                         xi_loss_fn = m_loss (e_model e),
                         xi_loss_weigths = m_loss_weights (e_model e),
                         xi_meta_data = e_meta_data e\<rparr>]) = Inr (em', xs')"
    by (auto split: sum.splits option.splits)
  have dist: "distinct (map fst ms)"
    using Cons.prems(2) ms by (simp add: recorded_ok_def)
  have step: "em_ok em1" "stored_values em1 m d =
           stored_values em m d @ (case map_of ms m of None \<Rightarrow> [] | Some r \<Rightarrow> [own_value d r])"
    using collect_metrics_values[OF c dist dist _ Cons.prems(3) Cons.prems(4), of m] by auto
  have "em_ok em' \<and> stored_values em' m d = stored_values em1 m d @ per_execution_values d m es"
    using Cons.IH[OF rest _ step(1) Cons.prems(4)] Cons.prems(2) by simp
  then show ?case
    using step(2) ms by (simp add: per_execution_values_Cons)
qed

lemma np_min_Min: "data \<noteq> [] \<Longrightarrow> np_min data = Inr (Min (set data))"
  by (cases data) (simp_all add: Min.set_eq_fold[symmetric])

lemma np_max_Max: "data \<noteq> [] \<Longrightarrow> np_max data = Inr (Max (set data))"
  by (cases data) (simp_all add: Max.set_eq_fold[symmetric])

lemma np_median_median: "np_median data = median data"
  by (simp add: np_median_def median_def Let_def)

lemma aggregate_stats_of:
  "aggregate data = Inr st \<Longrightarrow> data \<noteq> [] \<and> st = stats_of data"
proof (cases "data = []")
  case True
  moreover assume "aggregate data = Inr st"
  ultimately show ?thesis by (simp add: aggregate_def)
next
  case False
  moreover assume "aggregate data = Inr st"
  ultimately show ?thesis
    by (auto simp: aggregate_def np_min_Min np_max_Max stats_of_def np_mean_def np_median_median)
qed

lemma lookup_aggregate_update:
  "lookup_aggregate (AList.update m (AList.update d st (dd_get acc m)) acc) m' d' =
     (if m' = m \<and> d' = d then Some st else lookup_aggregate acc m' d')"
  by (auto simp: lookup_aggregate_def update_conv' dd_get_def split: option.splits)

lemma aggregate_directions_lookup:
  assumes "aggregate_directions m items acc = Inr metrics" and "distinct (map fst items)"
  shows "lookup_aggregate metrics m' d =
           (if m' = m
            then (case map_of items d of
                    Some data \<Rightarrow> Some (stats_of data)
                  | None \<Rightarrow> lookup_aggregate acc m d)
            else lookup_aggregate acc m' d)"
  using assms
proof (induction items arbitrary: acc)
  case Nil
  then show ?case by simp
next
  case (Cons p items)
  obtain d0 data0 where p: "p = (d0, data0)" by (cases p)
  from Cons.prems(1) p obtain st where st: "aggregate data0 = Inr st"
    and run: "aggregate_directions m items
                (AList.update m (AList.update d0 st (dd_get acc m)) acc) = Inr metrics"
    by (auto split: sum.splits)
  have st_eq: "st = stats_of data0" using aggregate_stats_of[OF st] by simp
  have fresh: "map_of items d0 = None" and dist: "distinct (map fst items)"
    using Cons.prems(2) p by (auto simp: map_of_eq_None_iff)
  show ?case
    using Cons.IH[OF run dist] fresh
    by (auto simp: p lookup_aggregate_update st_eq split: option.splits)
qed

lemma aggregate_metrics_lookup:
  assumes "aggregate_metrics keys em acc = Inr metrics" and "distinct keys"
    and "\<forall>k \<in> set keys. distinct (map fst (dd_get em k))"
  shows "lookup_aggregate metrics m d =
           (if m \<in> set keys
            then (case map_of (dd_get em m) d of
                    Some data \<Rightarrow> Some (stats_of data)
                  | None \<Rightarrow> lookup_aggregate acc m d)
            else lookup_aggregate acc m d)"
  using assms
proof (induction keys arbitrary: acc)
  case Nil
  then show ?case by simp
next
  case (Cons k keys)
  from Cons.prems(1) obtain acc' where
    step: "aggregate_directions k (dd_get em k) acc = Inr acc'"
    and run: "aggregate_metrics keys em acc' = Inr metrics"
    by (auto split: sum.splits)
  have dk: "distinct (map fst (dd_get em k))" using Cons.prems(3) by simp
  have notin: "k \<notin> set keys" and dist: "distinct keys" using Cons.prems(2) by auto
  have rest: "\<forall>k \<in> set keys. distinct (map fst (dd_get em k))" using Cons.prems(3) by simp
  note l1 = aggregate_directions_lookup[OF step dk, of m d]
  note l2 = Cons.IH[OF run dist rest]
  show ?case
    using l1 l2 notin by (auto split: option.splits)
qed

lemma build_report_parts:
  assumes "build_report self = Inr rep"
  shows "\<exists>em xs. collect_executions (i_executions self) [] [] = Inr (em, xs)
                 \<and> aggregate_metrics (map fst em) em [] = Inr (rep_metrics rep)"
  using assms
  by (auto simp: build_report_def instance_info.extend_def report.fields_def
      split: sum.splits prod.splits)

lemma Instance_record_results_report:
  "fst (Instance_record_results env self w) = Inr rep \<Longrightarrow> build_report self = Inr rep"
  by (auto simp: Instance_record_results_def split: sum.splits)

text \<open>
  C3. Whenever \<open>Instance.record_results\<close> returns a report (the executions' \<open>metrics\<close>
  being dictionaries, each key once), then for every metric name and for each of the
  directions \<open>min\<close> and \<open>max\<close>: the aggregate entry is the minimum, maximum, mean and
  median of the sequence that holds, in the order of the executions, each execution's own
  minimum (respectively maximum) of that metric; there is no entry when no execution
  recorded the metric. Values are real numbers.
\<close>

theorem record_results_aggregates_per_execution_values:
  assumes "fst (Instance_record_results env self w) = Inr rep"
    and "\<forall>e \<in> set (i_executions self). recorded_ok e"
    and "direction = ''min'' \<or> direction = ''max''"
  shows "lookup_aggregate (rep_metrics rep) metric direction =
           (if per_execution_values direction metric (i_executions self) = [] then None
            else Some (stats_of (per_execution_values direction metric (i_executions self))))"
proof -
  obtain em xs where col: "collect_executions (i_executions self) [] [] = Inr (em, xs)"
    and agg: "aggregate_metrics (map fst em) em [] = Inr (rep_metrics rep)"
    using build_report_parts[OF Instance_record_results_report[OF assms(1)]] by blast
  have ok: "em_ok em"
    and vals: "stored_values em metric direction
                 = per_execution_values direction metric (i_executions self)"
    using collect_executions_values[OF col assms(2) em_ok_Nil assms(3), of metric]
    by (simp_all add: stored_values_Nil)
  have dist: "distinct (map fst em)" using ok by (simp add: em_ok_def)
  have inner: "\<forall>k \<in> set (map fst em). distinct (map fst (dd_get em k))"
    using ok unfolding em_ok_def dd_get_def by (auto split: option.splits)
  note look = aggregate_metrics_lookup[OF agg dist inner, of metric direction]
  show ?thesis
  proof (cases "map_of em metric")
    case None
    then have "metric \<notin> set (map fst em)" by (simp add: map_of_eq_None_iff)
    moreover have "stored_values em metric direction = []"
      using None by (simp add: stored_values_def dd_get_def)
    ultimately show ?thesis using look vals by (simp add: lookup_aggregate_def)
  next
    case (Some inner)
    then have mem: "metric \<in> set (map fst em)"
      by (metis map_of_eq_None_iff option.distinct(1) set_map)
    have get: "dd_get em metric = inner" using Some by (simp add: dd_get_def)
    show ?thesis
    proof (cases "map_of inner direction")
      case None
      then have "stored_values em metric direction = []"
        using get by (simp add: stored_values_def dd_get_def)
      then show ?thesis using look vals mem get None by (simp add: lookup_aggregate_def)
    next
      case (Some data)
      then have sv: "stored_values em metric direction = data"
        using get by (simp add: stored_values_def dd_get_def)
      have "data \<noteq> []" using ok \<open>map_of em metric = Some inner\<close> Some
        unfolding em_ok_def by blast
      then show ?thesis using look vals mem get Some sv by (simp add: lookup_aggregate_def)
    qed
  qed
qed

text \<open>
  Two executions whose own minima of \<open>acc\<close> are 0.5 and 0.7: the aggregate for direction
  \<open>min\<close> is minimum 0.5, maximum 0.7, mean 0.6, median 0.6.
\<close>

theorem record_results_aggregates_per_execution_values_witness:
  "recorded_ok (ex_recorded 0.5 0.9) \<and> recorded_ok (ex_recorded 0.7 0.8)
   \<and> per_execution_values ''min'' ''acc'' [ex_recorded 0.5 0.9, ex_recorded 0.7 0.8] = [0.5, 0.7]
   \<and> (\<exists>rep. fst (Instance_record_results ex_env
                (ex_instance\<lparr>i_executions := [ex_recorded 0.5 0.9, ex_recorded 0.7 0.8]\<rparr>)
                ex_world) = Inr rep
          \<and> lookup_aggregate (rep_metrics rep) ''acc'' ''min''
              = Some \<lparr>st_min = 0.5, st_max = 0.7, st_mean = 0.6, st_median = 0.6\<rparr>)"
proof -
  let ?I = "ex_instance\<lparr>i_executions := [ex_recorded 0.5 0.9, ex_recorded 0.7 0.8]\<rparr>"
  have ok: "\<forall>e \<in> set (i_executions ?I). recorded_ok e"
    by (simp add: recorded_ok_def ex_recorded_def)
  have "\<exists>rep. fst (Instance_record_results ex_env ?I ex_world) = Inr rep"
    by (simp add: ex_defs report_defs)
  then obtain rep where rep: "fst (Instance_record_results ex_env ?I ex_world) = Inr rep" ..
  have vals: "per_execution_values ''min'' ''acc'' (i_executions ?I) = [0.5, 0.7]"
    by (simp add: per_execution_values_def ex_recorded_def own_value_def)
  have st: "stats_of [0.5, 0.7] = \<lparr>st_min = 0.5, st_max = 0.7, st_mean = 0.6, st_median = 0.6\<rparr>"
    by (simp add: stats_of_def median_def)
  have "lookup_aggregate (rep_metrics rep) ''acc'' ''min''
          = Some \<lparr>st_min = 0.5, st_max = 0.7, st_mean = 0.6, st_median = 0.6\<rparr>"
    using record_results_aggregates_per_execution_values[OF rep ok, of "''min''" "''acc''"] vals st by simp
  moreover have "recorded_ok (ex_recorded 0.5 0.9) \<and> recorded_ok (ex_recorded 0.7 0.8)"
    using ok by simp
  ultimately show ?thesis using vals rep by auto
qed

end
